theory Spec2Isabelle
  imports
    Complex_Main
    "HOL-Library.Char_ord"
    "HOL-Library.List_Lexorder"
    "HOL-Library.Option_ord"
    "HOL-Library.Multiset"
begin

section \<open>Shaggy Tree River Watch: the data pipeline of \<open>app.py\<close>\<close>

text \<open>
  The script polls a hydrology service and a weather service, merges the two answers into
  one reading, optionally stores it in a SQLite table and charts the stored rows of the
  last 24 hours. This theory embeds the functions of \<open>app.py\<close> that carry that pipeline.

  Conventions of the embedding:
  \<^item> a measurement that the pipeline carries (gage height, temperatures, wind) is a
    \<open>real\<close>, the value of the float; the one multiplication applied to it on the way,
    \<open>mps * 2.23694\<close>, is taken exactly. The float arithmetic of \<open>c_to_f\<close> is
    modelled with its rounding, on the type \<open>pyfloat\<close> of binary64 values;
  \<^item> \<open>None\<close> is \<open>None\<close> of an option type, or \<open>JNull\<close> where the value is a
    decoded JSON value;
  \<^item> a raised exception is \<open>Inl e\<close> of a result \<open>error + 'a\<close>;
  \<^item> what the script obtains from libraries and from the outside world (the text-to-float
    conversion of \<open>float\<close>, \<open>datetime.isoformat\<close>, \<open>pandas.to_datetime\<close>,
    SQLite's rendering of a number as text, the clock, the replies of the two services)
    is a parameter of the functions that use it.
\<close>

subsection \<open>Configuration constants\<close>

definition USGS_IV_URL :: string where
  "USGS_IV_URL = ''https://waterservices.usgs.gov/nwis/iv/''"

definition OPEN_METEO_URL :: string where
  "OPEN_METEO_URL = ''https://api.open-meteo.com/v1/forecast''"

definition PARAM_GAGE_HEIGHT :: string where
  "PARAM_GAGE_HEIGHT = ''00065''"

definition PARAM_WATER_TEMP :: string where
  "PARAM_WATER_TEMP = ''00010''"

subsection \<open>Decoded JSON values and Python's operations on them\<close>

text \<open>
  \<open>r.json()\<close> yields \<open>None\<close>, \<open>bool\<close>, \<open>int\<close>, \<open>float\<close>, \<open>str\<close>, \<open>list\<close>
  or \<open>dict\<close> values. An object is kept as the list of its members in document order;
  a repeated key takes the value of its last occurrence, as in \<open>json.loads\<close>.
\<close>

datatype json =
    JNull
  | JBool bool
  | JInt int
  | JFloat real
  | JStr string
  | JArr "json list"
  | JObj "(string \<times> json) list"

datatype error =
    RequestException
  | HTTPError nat
  | JSONDecodeError
  | KeyError
  | IndexError
  | TypeError
  | ValueError
  | OverflowError
  | InterfaceError
  | OperationalError
  | DatabaseError
  | ZeroDivisionError

text \<open>Sequencing of computations that may raise: the first exception ends the rest.\<close>

definition ebind :: "error + 'a \<Rightarrow> ('a \<Rightarrow> error + 'b) \<Rightarrow> error + 'b" where
  "ebind m f = (case m of Inl e \<Rightarrow> Inl e | Inr x \<Rightarrow> f x)"

text \<open>\<open>x[k]\<close> for a string key \<open>k\<close>: only a \<open>dict\<close> accepts it.\<close>

fun getitem :: "json \<Rightarrow> string \<Rightarrow> error + json" where
  "getitem (JObj kvs) k =
     (case map_of (rev kvs) k of None \<Rightarrow> Inl KeyError | Some v \<Rightarrow> Inr v)"
| "getitem _ k = Inl TypeError"

text \<open>
  \<open>x[i]\<close> for an integer \<open>i\<close>: a \<open>list\<close> and a \<open>str\<close> are indexed, negative indices
  counting from the end; a \<open>dict\<close> decoded from JSON has no integer key; nothing else is
  subscriptable.
\<close>

definition seq_index :: "'a list \<Rightarrow> int \<Rightarrow> error + 'a" where
  "seq_index xs i =
     (if 0 \<le> i \<and> i < int (length xs) then Inr (xs ! nat i)
      else if i < 0 \<and> - int (length xs) \<le> i then Inr (xs ! nat (int (length xs) + i))
      else Inl IndexError)"

fun getindex :: "json \<Rightarrow> int \<Rightarrow> error + json" where
  "getindex (JArr xs) i = seq_index xs i"
| "getindex (JStr s) i = ebind (seq_index s i) (\<lambda>c. Inr (JStr [c]))"
| "getindex (JObj kvs) i = Inl KeyError"
| "getindex _ i = Inl TypeError"

text \<open>
  The items a \<open>for\<close> loop draws from a value: the elements of a list, the characters of
  a string, the keys of a dict in first-insertion order.
\<close>

fun py_iter :: "json \<Rightarrow> error + json list" where
  "py_iter (JArr xs) = Inr xs"
| "py_iter (JStr s) = Inr (map (\<lambda>c. JStr [c]) s)"
| "py_iter (JObj kvs) = Inr (map JStr (rev (remdups (rev (map fst kvs)))))"
| "py_iter _ = Inl TypeError"

text \<open>Truth value of a decoded value, as \<open>or\<close> tests it.\<close>

fun truthy :: "json \<Rightarrow> bool" where
  "truthy JNull = False"
| "truthy (JBool b) = b"
| "truthy (JInt i) = (i \<noteq> 0)"
| "truthy (JFloat r) = (r \<noteq> 0)"
| "truthy (JStr s) = (s \<noteq> [])"
| "truthy (JArr xs) = (xs \<noteq> [])"
| "truthy (JObj kvs) = (kvs \<noteq> [])"

definition py_or :: "json \<Rightarrow> json \<Rightarrow> json" where
  "py_or a b = (if truthy a then a else b)"

text \<open>
  The operand of float arithmetic (\<open>x * 2.23694\<close>, \<open>x * 9 / 5 + 32\<close>) behind an
  \<open>is not None\<close> test: \<open>None\<close> stays absent, a number (a \<open>bool\<close> is one) gives its
  value, anything else raises \<open>TypeError\<close> in the arithmetic.
\<close>

fun number_arg :: "json \<Rightarrow> error + real option" where
  "number_arg JNull = Inr None"
| "number_arg (JBool b) = Inr (Some (if b then 1 else 0))"
| "number_arg (JInt i) = Inr (Some (real_of_int i))"
| "number_arg (JFloat r) = Inr (Some r)"
| "number_arg _ = Inl TypeError"

subsection \<open>What the libraries and the clock supply\<close>

record 'd runtime =
  str_to_float :: "string \<Rightarrow> real option"
  isoformat :: "int \<Rightarrow> string"
  to_datetime_ok :: "string option list \<Rightarrow> bool"
  datetime_of :: "string option \<Rightarrow> 'd"
  number_text :: "json \<Rightarrow> string"

text \<open>
  \<^item> \<open>str_to_float s\<close>: the value of \<open>float(s)\<close> for a string \<open>s\<close>, \<open>None\<close> when it
    raises \<open>ValueError\<close>;
  \<^item> \<open>isoformat t\<close>: \<open>isoformat()\<close> of the UTC datetime that lies \<open>t\<close> microseconds
    after 1970-01-01T00:00:00;
  \<^item> \<open>to_datetime_ok col\<close>: whether \<open>pd.to_datetime(col, utc=True)\<close> converts the
    column \<open>col\<close> (otherwise it raises);
  \<^item> \<open>datetime_of x\<close>: the UTC datetime, a value of type \<open>'d\<close>, that this conversion
    gives for the entry \<open>x\<close> of a column it converts;
  \<^item> \<open>number_text v\<close>: the text SQLite stores when the number \<open>v\<close> is written into a
    column of TEXT affinity.
\<close>

text \<open>\<open>float(x)\<close> on a decoded value.\<close>

fun py_float :: "'d runtime \<Rightarrow> json \<Rightarrow> error + real" where
  "py_float rt (JBool b) = Inr (if b then 1 else 0)"
| "py_float rt (JInt i) = Inr (real_of_int i)"
| "py_float rt (JFloat r) = Inr r"
| "py_float rt (JStr s) =
     (case str_to_float rt s of None \<Rightarrow> Inl ValueError | Some r \<Rightarrow> Inr r)"
| "py_float rt _ = Inl TypeError"

subsection \<open>Helpers (unit converters)\<close>

text \<open>
  A Python \<open>float\<close> is an IEEE binary64 value: a finite value (a real of the form
  \<open>m * 2 ^ e\<close> with \<open>\<bar>m\<bar> < 2 ^ 53\<close> and \<open>- 1074 \<le> e\<close>, below \<open>2 ^ 1024\<close> in
  magnitude), an infinity or a NaN. Each arithmetic operation returns the exact result
  rounded to the nearest such value, a tie going to the even significand, and an infinity
  when the rounded magnitude reaches \<open>2 ^ 1024\<close>. The two zeros are one value here: no
  operation below tells them apart.

  \<open>blen n\<close> is the number of binary digits of \<open>n\<close>, \<open>ilog2 x\<close> the integer part of the
  binary logarithm of a positive \<open>x\<close>, \<open>pow2 e\<close> the power \<open>2 ^ e\<close> for an integer \<open>e\<close>,
  and \<open>fround x\<close> the float nearest to the real \<open>x\<close>.
\<close>

datatype pyfloat = Fin real | PInf | NInf | NaN

function blen :: "nat \<Rightarrow> nat" where
  "blen n = (if n = 0 then 0 else Suc (blen (n div 2)))"
  by pat_completeness auto
termination
  by (relation "measure id") auto

definition ilog2 :: "real \<Rightarrow> int" where
  "ilog2 x =
     (if 1 \<le> x then int (blen (nat \<lfloor>x\<rfloor>)) - 1
      else - int (blen (nat \<lceil>1 / x\<rceil> - 1)))"

definition pow2 :: "int \<Rightarrow> real" where
  "pow2 e = (if 0 \<le> e then 2 ^ nat e else 1 / 2 ^ nat (- e))"

definition round_half_even :: "real \<Rightarrow> int" where
  "round_half_even x =
     (if x - of_int \<lfloor>x\<rfloor> < 1 / 2 then \<lfloor>x\<rfloor>
      else if 1 / 2 < x - of_int \<lfloor>x\<rfloor> then \<lfloor>x\<rfloor> + 1
      else if even \<lfloor>x\<rfloor> then \<lfloor>x\<rfloor>
      else \<lfloor>x\<rfloor> + 1)"

definition fround :: "real \<Rightarrow> pyfloat" where
  "fround x =
     (if x = 0 then Fin 0
      else (let q = pow2 (max (ilog2 \<bar>x\<bar> - 52) (- 1074));
                y = of_int (round_half_even (x / q)) * q
            in if 2 ^ 1024 \<le> \<bar>y\<bar> then (if x < 0 then NInf else PInf) else Fin y))"

text \<open>
  \<open>x * y\<close>, \<open>x + y\<close> and \<open>x / y\<close> on floats. Only the division can raise: Python
  refuses a zero divisor before it divides.
\<close>

fun fmul :: "pyfloat \<Rightarrow> pyfloat \<Rightarrow> pyfloat" where
  "fmul NaN y = NaN"
| "fmul x NaN = NaN"
| "fmul (Fin a) (Fin b) = fround (a * b)"
| "fmul (Fin a) PInf = (if a = 0 then NaN else if 0 < a then PInf else NInf)"
| "fmul (Fin a) NInf = (if a = 0 then NaN else if 0 < a then NInf else PInf)"
| "fmul PInf (Fin b) = (if b = 0 then NaN else if 0 < b then PInf else NInf)"
| "fmul NInf (Fin b) = (if b = 0 then NaN else if 0 < b then NInf else PInf)"
| "fmul PInf PInf = PInf"
| "fmul PInf NInf = NInf"
| "fmul NInf PInf = NInf"
| "fmul NInf NInf = PInf"

fun fadd :: "pyfloat \<Rightarrow> pyfloat \<Rightarrow> pyfloat" where
  "fadd NaN y = NaN"
| "fadd x NaN = NaN"
| "fadd (Fin a) (Fin b) = fround (a + b)"
| "fadd PInf NInf = NaN"
| "fadd NInf PInf = NaN"
| "fadd PInf y = PInf"
| "fadd NInf y = NInf"
| "fadd (Fin a) y = y"

fun fdiv :: "pyfloat \<Rightarrow> pyfloat \<Rightarrow> error + pyfloat" where
  "fdiv x (Fin b) =
     (if b = 0 then Inl ZeroDivisionError
      else (case x of
              Fin a \<Rightarrow> Inr (fround (a / b))
            | PInf \<Rightarrow> Inr (if 0 < b then PInf else NInf)
            | NInf \<Rightarrow> Inr (if 0 < b then NInf else PInf)
            | NaN \<Rightarrow> Inr NaN))"
| "fdiv (Fin a) PInf = Inr (Fin 0)"
| "fdiv (Fin a) NInf = Inr (Fin 0)"
| "fdiv x y = Inr NaN"

text \<open>
  \<open>c_to_f\<close> on an optional float. The literals 9, 5 and 32 of the source are integers,
  which the float operations take as the floats of the same value.
\<close>

definition c_to_f :: "pyfloat option \<Rightarrow> error + pyfloat option" where
  "c_to_f c =
     (case c of
        Some x \<Rightarrow> ebind (fdiv (fmul x (Fin 9)) (Fin 5)) (\<lambda>q. Inr (Some (fadd q (Fin 32))))
      | None \<Rightarrow> Inr None)"

definition mps_to_mph :: "real option \<Rightarrow> real option" where
  "mps_to_mph mps = (case mps of Some x \<Rightarrow> Some (x * 2.23694) | None \<Rightarrow> None)"

subsection \<open>Data fetch\<close>

text \<open>
  One \<open>requests.get\<close> either raises (no connection, timeout) or delivers a status code
  and a body that may or may not decode as JSON. \<open>http_json\<close> is the common prefix of
  both fetchers: \<open>requests.get\<close>, \<open>raise_for_status\<close>, \<open>r.json()\<close>.
\<close>

datatype http_reply = NoReply | Reply nat "json option"

type_synonym network = "string \<Rightarrow> http_reply"

definition raise_for_status :: "nat \<Rightarrow> error + unit" where
  "raise_for_status st = (if 400 \<le> st \<and> st < 600 then Inl (HTTPError st) else Inr ())"

definition http_json :: "http_reply \<Rightarrow> error + json" where
  "http_json rp =
     (case rp of
        NoReply \<Rightarrow> Inl RequestException
      | Reply st body \<Rightarrow>
          ebind (raise_for_status st)
            (\<lambda>_. case body of None \<Rightarrow> Inl JSONDecodeError | Some js \<Rightarrow> Inr js))"

text \<open>
  The body of the loop of \<open>fetch_usgs\<close>, on the variables \<open>(ts, gh, wt)\<close>:
  \<open>series_code s\<close> is \<open>s["variable"]["variableCode"][0]["value"]\<close> and
  \<open>series_latest s\<close> is \<open>s["values"][0]["value"][-1]\<close>.
\<close>

type_synonym usgs_result = "json \<times> real option \<times> real option"

definition series_code :: "json \<Rightarrow> error + json" where
  "series_code s =
     ebind (getitem s ''variable'') (\<lambda>v.
     ebind (getitem v ''variableCode'') (\<lambda>cs.
     ebind (getindex cs 0) (\<lambda>c. getitem c ''value'')))"

definition series_latest :: "json \<Rightarrow> error + json" where
  "series_latest s =
     ebind (getitem s ''values'') (\<lambda>v.
     ebind (getindex v 0) (\<lambda>v0.
     ebind (getitem v0 ''value'') (\<lambda>vs. getindex vs (- 1))))"

definition float_value :: "'d runtime \<Rightarrow> json \<Rightarrow> error + real option" where
  "float_value rt val =
     ebind (getitem val ''value'') (\<lambda>v. ebind (py_float rt v) (\<lambda>x. Inr (Some x)))"

definition usgs_step :: "'d runtime \<Rightarrow> usgs_result \<Rightarrow> json \<Rightarrow> error + usgs_result" where
  "usgs_step rt acc s =
     (case acc of (ts, gh, wt) \<Rightarrow>
        ebind (series_code s) (\<lambda>code.
        ebind (series_latest s) (\<lambda>val.
        ebind (getitem val ''dateTime'') (\<lambda>ts'.
        ebind (if code = JStr PARAM_GAGE_HEIGHT then float_value rt val else Inr gh) (\<lambda>gh'.
        ebind (if code = JStr PARAM_WATER_TEMP then float_value rt val else Inr wt) (\<lambda>wt'.
        Inr (ts', gh', wt')))))))"

fun usgs_loop :: "'d runtime \<Rightarrow> usgs_result \<Rightarrow> json list \<Rightarrow> error + usgs_result" where
  "usgs_loop rt acc [] = Inr acc"
| "usgs_loop rt acc (s # ss) = ebind (usgs_step rt acc s) (\<lambda>acc'. usgs_loop rt acc' ss)"

text \<open>
  Lines 81 to 90: what \<open>fetch_usgs\<close> does with the decoded body \<open>js\<close>;
  \<open>usgs_series js\<close> are the items the loop draws from \<open>js["value"]["timeSeries"]\<close>.
\<close>

definition usgs_series :: "json \<Rightarrow> error + json list" where
  "usgs_series js =
     ebind (getitem js ''value'') (\<lambda>v.
     ebind (getitem v ''timeSeries'') py_iter)"

definition usgs_extract :: "'d runtime \<Rightarrow> json \<Rightarrow> error + usgs_result" where
  "usgs_extract rt js = ebind (usgs_series js) (usgs_loop rt (JNull, None, None))"

text \<open>
  A fetcher takes the log of the requests issued so far and returns it extended by its
  own request, together with its result.
\<close>

definition fetch_usgs ::
  "'d runtime \<Rightarrow> network \<Rightarrow> string list \<Rightarrow> string list \<times> (error + usgs_result)" where
  "fetch_usgs rt net sent =
     (sent @ [USGS_IV_URL], ebind (http_json (net USGS_IV_URL)) (usgs_extract rt))"

type_synonym weather_result = "json \<times> json \<times> real option"

definition weather_extract :: "json \<Rightarrow> error + weather_result" where
  "weather_extract js =
     ebind (getitem js ''current'') (\<lambda>cur.
     ebind (getitem cur ''time'') (\<lambda>t.
     ebind (getitem cur ''temperature_2m'') (\<lambda>temp.
     ebind (getitem cur ''wind_speed_10m'') (\<lambda>w.
     ebind (number_arg w) (\<lambda>mps. Inr (t, temp, mps_to_mph mps))))))"

definition fetch_weather ::
  "network \<Rightarrow> string list \<Rightarrow> string list \<times> (error + weather_result)" where
  "fetch_weather net sent =
     (sent @ [OPEN_METEO_URL], ebind (http_json (net OPEN_METEO_URL)) weather_extract)"

subsection \<open>Fetch live: the body of the top-level \<open>try\<close>\<close>

record reading =
  r_ts :: json
  r_gh :: "real option"
  r_wt :: "real option"
  r_at :: json
  r_wind :: "real option"

definition fetch_live ::
  "'d runtime \<Rightarrow> network \<Rightarrow> string list \<Rightarrow> string list \<times> (error + reading)" where
  "fetch_live rt net sent =
     (case fetch_usgs rt net sent of
        (sent1, Inl e) \<Rightarrow> (sent1, Inl e)
      | (sent1, Inr (ts_r, gh, wt)) \<Rightarrow>
          (case fetch_weather net sent1 of
             (sent2, Inl e) \<Rightarrow> (sent2, Inl e)
           | (sent2, Inr (ts_w, temp, wind)) \<Rightarrow>
               (sent2, Inr \<lparr>r_ts = py_or ts_r ts_w, r_gh = gh, r_wt = wt,
                             r_at = temp, r_wind = wind\<rparr>)))"

subsection \<open>Database\<close>

text \<open>
  The table \<open>readings\<close> of \<open>levels.sqlite\<close>, as the list of its rows in rowid order;
  \<open>None\<close> is a database file without the table. A stored timestamp is a text or NULL,
  a stored measurement a real or NULL. Failures of the disk are not part of the model.
  A row of the data frame that \<open>load_last_24h\<close> returns has the same columns, with a
  datetime in place of the timestamp text.
\<close>

record 't row =
  row_id :: int
  ts_utc :: 't
  gage_height_ft :: "real option"
  water_temp_c :: "real option"
  air_temp_c :: "real option"
  wind_mph :: "real option"

type_synonym stored_row = "string option row"

type_synonym database = "stored_row list option"

definition init_db :: "database \<Rightarrow> database" where
  "init_db d = (case d of None \<Rightarrow> Some [] | Some rows \<Rightarrow> Some rows)"

text \<open>
  \<open>INSERT ... VALUES (NULL, ...)\<close> into an \<open>INTEGER PRIMARY KEY\<close> column: SQLite
  takes 1 for an empty table and otherwise one more than the largest id in use (the
  64-bit limit of ids is left out).
\<close>

definition next_rowid :: "stored_row list \<Rightarrow> int" where
  "next_rowid rows =
     (case rows of [] \<Rightarrow> 1 | r # rs \<Rightarrow> fold max (map row_id rs) (row_id r) + 1)"

definition store_row ::
  "string option \<Rightarrow> real option \<Rightarrow> real option \<Rightarrow> real option \<Rightarrow> real option \<Rightarrow>
   database \<Rightarrow> error + database" where
  "store_row ts gh wt temp wind d =
     (case d of
        None \<Rightarrow> Inl OperationalError
      | Some rows \<Rightarrow>
          Inr (Some (rows @
            [\<lparr>row_id = next_rowid rows, ts_utc = ts, gage_height_ft = gh,
              water_temp_c = wt, air_temp_c = temp, wind_mph = wind\<rparr>])))"

text \<open>
  \<open>timedelta(hours=h)\<close> in microseconds, the unit of the clock of the model.
\<close>

definition timedelta_hours :: "int \<Rightarrow> int" where
  "timedelta_hours h = h * 3600 * 1000000"

text \<open>
  \<open>WHERE ts_utc >= ?\<close>: a NULL never satisfies a comparison, and two texts compare
  byte by byte, a proper prefix being the smaller (SQLite's default collation). This is
  the order of \<open>string\<close> here. \<open>ORDER BY ts_utc\<close> sorts by the same order; the model
  keeps rows of equal timestamp in rowid order.
\<close>

definition in_window :: "string \<Rightarrow> stored_row \<Rightarrow> bool" where
  "in_window since r = (case ts_utc r of None \<Rightarrow> False | Some t \<Rightarrow> since \<le> t)"

definition read_sql :: "string \<Rightarrow> stored_row list \<Rightarrow> stored_row list" where
  "read_sql since rows = sort_key ts_utc (filter (in_window since) rows)"

text \<open>
  \<open>load_last_24h\<close> at clock value \<open>now\<close>. When the frame is not empty its timestamp
  column is replaced by its conversion with \<open>pd.to_datetime\<close>, which may raise;
  \<open>converted\<close> is one row after that replacement. An empty frame is returned as it is.
\<close>

definition converted :: "'d runtime \<Rightarrow> stored_row \<Rightarrow> 'd row" where
  "converted rt r =
     \<lparr>row_id = row_id r, ts_utc = datetime_of rt (ts_utc r),
      gage_height_ft = gage_height_ft r, water_temp_c = water_temp_c r,
      air_temp_c = air_temp_c r, wind_mph = wind_mph r\<rparr>"

definition load_last_24h :: "'d runtime \<Rightarrow> int \<Rightarrow> database \<Rightarrow> error + 'd row list" where
  "load_last_24h rt now d =
     (let since = now - timedelta_hours 24 in
      case d of
        None \<Rightarrow> Inl DatabaseError
      | Some rows \<Rightarrow>
          (let df = read_sql (isoformat rt since) rows in
           if df \<noteq> [] then
             (if to_datetime_ok rt (map ts_utc df) then Inr (map (converted rt) df)
              else Inl ValueError)
           else Inr []))"



subsection \<open>One run of the script\<close>

text \<open>
  How \<open>sqlite3\<close> binds the script's \<open>ts\<close> to the TEXT column: \<open>None\<close> is NULL, a
  \<open>str\<close> is stored as it is, a number is stored as its text, an \<open>int\<close> outside 64 bits
  and a \<open>list\<close> or \<open>dict\<close> are refused.
\<close>

definition int64 :: "int \<Rightarrow> bool" where
  "int64 i = (- (2 ^ 63) \<le> i \<and> i < 2 ^ 63)"

fun bind_text :: "'d runtime \<Rightarrow> json \<Rightarrow> error + string option" where
  "bind_text rt JNull = Inr None"
| "bind_text rt (JStr s) = Inr (Some s)"
| "bind_text rt (JInt i) =
     (if int64 i then Inr (Some (number_text rt (JInt i))) else Inl OverflowError)"
| "bind_text rt (JBool b) = Inr (Some (number_text rt (JBool b)))"
| "bind_text rt (JFloat r) = Inr (Some (number_text rt (JFloat r)))"
| "bind_text rt _ = Inl InterfaceError"

fun bind_int64 :: "json \<Rightarrow> error + unit" where
  "bind_int64 (JInt i) = (if int64 i then Inr () else Inl OverflowError)"
| "bind_int64 _ = Inr ()"

text \<open>
  The button (lines 164 to 166). \<open>temp\<close> is the number that \<open>at\<close> holds: the cards
  above the button have evaluated \<open>c_to_f(at)\<close>, so \<open>at\<close> is \<open>None\<close> or a number when
  the button is reached.
\<close>

definition snapshot :: "'d runtime \<Rightarrow> reading \<Rightarrow> real option \<Rightarrow> database \<Rightarrow> error + database" where
  "snapshot rt rd temp d =
     ebind (bind_text rt (r_ts rd)) (\<lambda>ts.
     ebind (bind_int64 (r_at rd)) (\<lambda>_.
     store_row ts (r_gh rd) (r_wt rd) temp (r_wind rd) d))"

text \<open>
  What a run leaves on the page: the fetch error shown by \<open>st.error\<close> before
  \<open>st.stop()\<close>, an exception that ended the run after the fetch, or the reading and the
  frame of the last 24 hours. The formatting of the cards and the plots are not part of
  the model.
\<close>

datatype 'd outcome = FetchFailed error | Crashed error | Page reading "'d row list"

record world =
  requests :: "string list"
  store :: database

definition run_script ::
  "'d runtime \<Rightarrow> network \<Rightarrow> bool \<Rightarrow> int \<Rightarrow> world \<Rightarrow> world \<times> 'd outcome" where
  "run_script rt net clicked now w =
     (let d0 = init_db (store w) in
      case fetch_live rt net (requests w) of
        (sent, Inl e) \<Rightarrow> (\<lparr>requests = sent, store = d0\<rparr>, FetchFailed e)
      | (sent, Inr rd) \<Rightarrow>
          (case number_arg (r_at rd) of
             Inl e \<Rightarrow> (\<lparr>requests = sent, store = d0\<rparr>, Crashed e)
           | Inr temp \<Rightarrow>
               (case (if clicked then snapshot rt rd temp d0 else Inr d0) of
                  Inl e \<Rightarrow> (\<lparr>requests = sent, store = d0\<rparr>, Crashed e)
                | Inr d1 \<Rightarrow>
                    (case load_last_24h rt now d1 of
                       Inl e \<Rightarrow> (\<lparr>requests = sent, store = d1\<rparr>, Crashed e)
                     | Inr df \<Rightarrow> (\<lparr>requests = sent, store = d1\<rparr>, Page rd df)))))"

subsection \<open>A runtime for the worked examples\<close>

text \<open>
  The examples below need one concrete runtime. \<open>dec_float\<close> is \<open>float\<close> on plain
  decimal literals (an optional sign, digits, an optional fraction); \<open>isoformat_utc\<close> is
  \<open>isoformat()\<close> of an aware UTC datetime given in microseconds since the epoch (years 1
  to 9999); \<open>utc_instant\<close> reads an ISO-8601 text \<open>YYYY-MM-DDTHH:MM\<close>, optionally
  continued by \<open>:SS\<close>, by a fraction of up to six digits and by \<open>Z\<close> or an offset
  \<open>+HH:MM\<close>, as the instant it denotes in microseconds since the epoch, a text without
  offset counting as UTC; \<open>same_layout\<close> accepts a column whose texts can all be read
  and share one layout (which of the optional parts are there), since the conversion
  takes the format of a column from its first entry and raises on an entry of another
  format; \<open>int_text\<close> renders integers in decimal and nothing else. No example relies
  on these functions outside the inputs named here.
\<close>

definition digit_val :: "char \<Rightarrow> nat option" where
  "digit_val c = map_of (zip ''0123456789'' [0, 1, 2, 3, 4, 5, 6, 7, 8, 9]) c"

fun digits_val :: "nat \<Rightarrow> string \<Rightarrow> nat option" where
  "digits_val acc [] = Some acc"
| "digits_val acc (c # cs) =
     (case digit_val c of None \<Rightarrow> None | Some d \<Rightarrow> digits_val (10 * acc + d) cs)"

definition dec_float :: "string \<Rightarrow> real option" where
  "dec_float s =
     (let neg = (take 1 s = ''-'');
          body = (if take 1 s = ''-'' \<or> take 1 s = ''+'' then drop 1 s else s);
          ip = takeWhile (\<lambda>c. c \<noteq> CHR ''.'') body;
          fp = drop 1 (dropWhile (\<lambda>c. c \<noteq> CHR ''.'') body)
      in if ip = [] \<and> fp = [] then None
         else (case (digits_val 0 ip, digits_val 0 fp) of
                 (Some a, Some b) \<Rightarrow>
                   Some ((if neg then - 1 else 1) * (real a + real b / 10 ^ length fp))
               | _ \<Rightarrow> None))"

definition digit_char :: "nat \<Rightarrow> char" where
  "digit_char d = ''0123456789'' ! (d mod 10)"

definition pad2 :: "nat \<Rightarrow> string" where
  "pad2 k = [digit_char (k div 10), digit_char k]"

definition pad4 :: "nat \<Rightarrow> string" where
  "pad4 k = pad2 (k div 100) @ pad2 k"

definition pad6 :: "nat \<Rightarrow> string" where
  "pad6 k = pad2 (k div 10000) @ pad4 k"

definition civil_from_days :: "int \<Rightarrow> int \<times> int \<times> int" where
  "civil_from_days z0 =
     (let z = z0 + 719468;
          era = z div 146097;
          doe = z mod 146097;
          yoe = (doe - doe div 1460 + doe div 36524 - doe div 146096) div 365;
          doy = doe - (365 * yoe + yoe div 4 - yoe div 100);
          mp = (5 * doy + 2) div 153;
          d = doy - (153 * mp + 2) div 5 + 1;
          m = (if mp < 10 then mp + 3 else mp - 9);
          y = yoe + era * 400 + (if m \<le> 2 then 1 else 0)
      in (y, m, d))"

definition isoformat_utc :: "int \<Rightarrow> string" where
  "isoformat_utc t =
     (let day = t div 86400000000;
          us_of_day = t mod 86400000000;
          sec = us_of_day div 1000000;
          us = us_of_day mod 1000000
      in case civil_from_days day of (y, m, d) \<Rightarrow>
           pad4 (nat y) @ ''-'' @ pad2 (nat m) @ ''-'' @ pad2 (nat d) @ ''T''
           @ pad2 (nat (sec div 3600)) @ '':'' @ pad2 (nat ((sec div 60) mod 60)) @ '':''
           @ pad2 (nat (sec mod 60))
           @ (if us = 0 then [] else ''.'' @ pad6 (nat us)) @ ''+00:00'')"

definition days_from_civil :: "int \<Rightarrow> int \<Rightarrow> int \<Rightarrow> int" where
  "days_from_civil y m d =
     (y - (if m \<le> 2 then 1 else 0)) div 400 * 146097
     + ((y - (if m \<le> 2 then 1 else 0)) mod 400 * 365
        + (y - (if m \<le> 2 then 1 else 0)) mod 400 div 4
        - (y - (if m \<le> 2 then 1 else 0)) mod 400 div 100
        + ((153 * (if 2 < m then m - 3 else m + 9) + 2) div 5 + d - 1))
     - 719468"

definition digits_n :: "nat \<Rightarrow> string \<Rightarrow> nat option" where
  "digits_n n s = (if length s = n then digits_val 0 s else None)"

text \<open>
  The parts after \<open>YYYY-MM-DDTHH:MM\<close>: seconds, then microseconds, each with the rest
  of the text, and at the end the offset in seconds.
\<close>

definition tail_seconds :: "string \<Rightarrow> (nat \<times> string) option" where
  "tail_seconds r =
     (if take 1 r = '':''
      then map_option (\<lambda>v. (v, drop 3 r)) (digits_n 2 (take 2 (drop 1 r)))
      else Some (0, r))"

definition tail_fraction :: "string \<Rightarrow> (nat \<times> string) option" where
  "tail_fraction r =
     (if take 1 r = ''.''
      then (if takeWhile (\<lambda>c. digit_val c \<noteq> None) (drop 1 r) = []
               \<or> 6 < length (takeWhile (\<lambda>c. digit_val c \<noteq> None) (drop 1 r))
            then None
            else map_option
              (\<lambda>v. (v * 10 ^ (6 - length (takeWhile (\<lambda>c. digit_val c \<noteq> None) (drop 1 r))),
                    dropWhile (\<lambda>c. digit_val c \<noteq> None) (drop 1 r)))
              (digits_val 0 (takeWhile (\<lambda>c. digit_val c \<noteq> None) (drop 1 r))))
      else Some (0, r))"

definition tail_offset :: "string \<Rightarrow> int option" where
  "tail_offset r =
     (if r = [] \<or> r = ''Z'' then Some 0
      else if length r = 6 \<and> r ! 3 = CHR '':'' \<and> (r ! 0 = CHR ''+'' \<or> r ! 0 = CHR ''-'')
      then (case (digits_n 2 (take 2 (drop 1 r)), digits_n 2 (drop 4 r)) of
              (Some h, Some m) \<Rightarrow>
                Some ((if r ! 0 = CHR ''-'' then - 1 else 1) * (int h * 3600 + int m * 60))
            | _ \<Rightarrow> None)
      else None)"

definition clock_instant :: "int \<Rightarrow> nat \<Rightarrow> nat \<Rightarrow> string \<Rightarrow> int option" where
  "clock_instant day h mi r =
     (case tail_seconds r of
        None \<Rightarrow> None
      | Some (sec, r1) \<Rightarrow>
          (if take 1 r \<noteq> '':'' \<and> take 1 r1 = ''.'' then None
           else (case tail_fraction r1 of
                   None \<Rightarrow> None
                 | Some (us, r2) \<Rightarrow>
                     (case tail_offset r2 of
                        None \<Rightarrow> None
                      | Some off \<Rightarrow>
                          (if h < 24 \<and> mi < 60 \<and> sec < 60
                           then Some ((day * 86400 + int h * 3600 + int mi * 60 + int sec - off)
                                      * 1000000 + int us)
                           else None)))))"

definition utc_instant :: "string \<Rightarrow> int option" where
  "utc_instant s =
     (if length s < 16 \<or> [s ! 4, s ! 7, s ! 10, s ! 13] \<noteq> ''--T:'' then None
      else (case (digits_n 4 (take 4 s), digits_n 2 (take 2 (drop 5 s)),
                  digits_n 2 (take 2 (drop 8 s)), digits_n 2 (take 2 (drop 11 s)),
                  digits_n 2 (take 2 (drop 14 s))) of
              (Some y, Some m, Some d, Some h, Some mi) \<Rightarrow>
                (if 1 \<le> m \<and> m \<le> 12 \<and> 1 \<le> d \<and> d \<le> 31
                 then clock_instant (days_from_civil (int y) (int m) (int d)) h mi (drop 16 s)
                 else None)
            | _ \<Rightarrow> None))"

definition layout :: "string \<Rightarrow> (bool \<times> bool \<times> bool) option" where
  "layout s =
     (case utc_instant s of
        None \<Rightarrow> None
      | Some _ \<Rightarrow>
          Some (take 1 (drop 16 s) = '':'', CHR ''.'' \<in> set (drop 16 s),
                CHR ''Z'' \<in> set (drop 16 s) \<or> CHR ''+'' \<in> set (drop 16 s)
                \<or> CHR ''-'' \<in> set (drop 16 s)))"

definition same_layout :: "string option list \<Rightarrow> bool" where
  "same_layout col =
     (case [s. Some s \<leftarrow> col] of
        [] \<Rightarrow> True
      | s # ss \<Rightarrow> layout s \<noteq> None \<and> list_all (\<lambda>t. layout t = layout s) ss)"

definition instant_of :: "string option \<Rightarrow> int option" where
  "instant_of x = (case x of None \<Rightarrow> None | Some s \<Rightarrow> utc_instant s)"

function nat_text :: "nat \<Rightarrow> string" where
  "nat_text n = (if n < 10 then [digit_char n] else nat_text (n div 10) @ [digit_char n])"
  by pat_completeness auto
termination
  by (relation "measure id") auto

fun int_text :: "json \<Rightarrow> string" where
  "int_text (JInt i) = (if i < 0 then ''-'' @ nat_text (nat (- i)) else nat_text (nat i))"
| "int_text (JBool b) = (if b then ''1'' else ''0'')"
| "int_text _ = []"

definition example_runtime :: "int option runtime" where
  "example_runtime =
     \<lparr>str_to_float = dec_float, isoformat = isoformat_utc,
      to_datetime_ok = same_layout, datetime_of = instant_of, number_text = int_text\<rparr>"

subsection \<open>Example responses\<close>

text \<open>
  A series object of the hydrology response with one variable code and one latest value,
  the response body around a list of series, the weather response body, and a network
  that answers both services with status 200.
\<close>

definition series :: "string \<Rightarrow> string \<Rightarrow> string \<Rightarrow> json" where
  "series code v t =
     JObj [(''variable'', JObj [(''variableCode'', JArr [JObj [(''value'', JStr code)]])]),
           (''values'', JArr [JObj [(''value'',
              JArr [JObj [(''value'', JStr v), (''dateTime'', JStr t)]])]])]"

definition usgs_body :: "json list \<Rightarrow> json" where
  "usgs_body ss = JObj [(''value'', JObj [(''timeSeries'', JArr ss)])]"

definition weather_body :: "json \<Rightarrow> json \<Rightarrow> json \<Rightarrow> json" where
  "weather_body t temp w =
     JObj [(''current'',
       JObj [(''time'', t), (''temperature_2m'', temp), (''wind_speed_10m'', w)])]"

definition serve :: "json \<Rightarrow> json \<Rightarrow> network" where
  "serve u m url =
     (if url = USGS_IV_URL then Reply 200 (Some u)
      else if url = OPEN_METEO_URL then Reply 200 (Some m)
      else NoReply)"

text \<open>Networks on which one of the two services fails.\<close>

definition gage_down :: "json \<Rightarrow> network" where
  "gage_down m url = (if url = OPEN_METEO_URL then Reply 200 (Some m) else Reply 503 None)"

definition weather_down :: "json \<Rightarrow> network" where
  "weather_down u url = (if url = USGS_IV_URL then Reply 200 (Some u) else NoReply)"

text \<open>
  Four stored rows, in the order of their insertion, and the samples they come from:
  a recent reading, one of two days before, one without timestamp, and another recent
  one. The timestamps have the layout of the hydrology service, in local time with its
  offset. The clock of the examples stands at 2024-05-01T19:00:00 UTC.
\<close>

definition row_a :: stored_row where
  "row_a = \<lparr>row_id = 1, ts_utc = Some ''2024-05-01T11:45:00.000-07:00'',
      gage_height_ft = Some 512.3, water_temp_c = Some 18.5, air_temp_c = Some 30,
      wind_mph = Some 8.94776\<rparr>"

definition row_b :: stored_row where
  "row_b = \<lparr>row_id = 2, ts_utc = Some ''2024-04-29T10:00:00.000-07:00'',
      gage_height_ft = Some 511.9, water_temp_c = None, air_temp_c = None, wind_mph = None\<rparr>"

definition row_c :: stored_row where
  "row_c = \<lparr>row_id = 3, ts_utc = None, gage_height_ft = Some 512,
      water_temp_c = None, air_temp_c = None, wind_mph = None\<rparr>"

definition row_d :: stored_row where
  "row_d = \<lparr>row_id = 4, ts_utc = Some ''2024-05-01T05:15:00.000-07:00'',
      gage_height_ft = None, water_temp_c = Some 18.2, air_temp_c = None, wind_mph = None\<rparr>"


text \<open>
  Two more rows: one stored 17.5 hours before the clock of the examples, at
  2024-05-01T01:30:00 UTC, whose local-time text lies below the text of the cutoff, and
  a recent one with the timestamp layout of the weather service.
\<close>

definition row_e :: stored_row where
  "row_e = \<lparr>row_id = 1, ts_utc = Some ''2024-04-30T18:30:00.000-07:00'',
      gage_height_ft = Some 512.1, water_temp_c = None, air_temp_c = None, wind_mph = None\<rparr>"

definition row_w :: stored_row where
  "row_w = \<lparr>row_id = 2, ts_utc = Some ''2024-05-01T18:45'', gage_height_ft = None,
      water_temp_c = None, air_temp_c = Some 30, wind_mph = Some 8.94776\<rparr>"

definition example_now :: int where
  "example_now = 1714590000000000"

subsection \<open>Notions used by the statements\<close>

text \<open>
  A timestamp of the data model: absent, or a text, which as an ISO-8601 text is not
  empty.
\<close>

fun is_timestamp :: "json \<Rightarrow> bool" where
  "is_timestamp JNull = True"
| "is_timestamp (JStr s) = (s \<noteq> [])"
| "is_timestamp _ = False"

text \<open>
  The timestamp the loop of \<open>fetch_usgs\<close> reads from a series (lines 84 and 85), and
  whether the variable code of a series is one of the two requested codes.
\<close>

definition series_time :: "json \<Rightarrow> error + json" where
  "series_time s = ebind (series_latest s) (\<lambda>val. getitem val ''dateTime'')"

definition code_matches :: "json \<Rightarrow> bool" where
  "code_matches s =
     (series_code s = Inr (JStr PARAM_GAGE_HEIGHT) \<or> series_code s = Inr (JStr PARAM_WATER_TEMP))"

text \<open>
  The timestamp of the last series, in iteration order, whose code matches; absent when
  none does.
\<close>

definition last_matched_time :: "json list \<Rightarrow> error + json" where
  "last_matched_time ss =
     (case rev (filter code_matches ss) of [] \<Rightarrow> Inr JNull | s # _ \<Rightarrow> series_time s)"

text \<open>
  A series that the loop reads without error and whose code is neither of the two
  requested codes.
\<close>

definition other_series :: "json \<Rightarrow> bool" where
  "other_series s =
     ((\<exists>c. series_code s = Inr c \<and> c \<noteq> JStr PARAM_GAGE_HEIGHT \<and> c \<noteq> JStr PARAM_WATER_TEMP)
      \<and> (\<exists>t. series_time s = Inr t))"

section \<open>Properties\<close>

subsection \<open>Auxiliary facts\<close>

lemma ebind_Inl [simp]: "ebind (Inl e) f = Inl e"
  by (simp add: ebind_def)

lemma ebind_Inr [simp]: "ebind (Inr x) f = f x"
  by (simp add: ebind_def)

lemma ebind_eq_Inr: "(ebind m f = Inr y) = (\<exists>x. m = Inr x \<and> f x = Inr y)"
  by (cases m) simp_all

lemma usgs_step_time:
  "usgs_step rt acc s = Inr (ts, gh, wt) \<Longrightarrow> series_time s = Inr ts"
  by (cases acc) (auto simp: usgs_step_def series_time_def ebind_eq_Inr)

lemma usgs_loop_last:
  "usgs_loop rt acc ss = Inr (ts, gh, wt) \<Longrightarrow> ss \<noteq> [] \<Longrightarrow> series_time (last ss) = Inr ts"
proof (induction ss arbitrary: acc)
  case Nil
  then show ?case by simp
next
  case (Cons s ss)
  from Cons.prems(1) obtain acc' where
    step: "usgs_step rt acc s = Inr acc'" and rest: "usgs_loop rt acc' ss = Inr (ts, gh, wt)"
    by (auto simp: ebind_eq_Inr)
  show ?case
  proof (cases "ss = []")
    case True
    with step rest show ?thesis by (simp add: usgs_step_time)
  next
    case False
    with Cons.IH [OF rest] show ?thesis by simp
  qed
qed

lemma http_json_Inr:
  "http_json rp = Inr js \<Longrightarrow> \<exists>st. rp = Reply st (Some js) \<and> \<not> (400 \<le> st \<and> st < 600)"
  by (auto simp: http_json_def raise_for_status_def split: http_reply.splits option.splits if_splits)

lemma http_json_ok:
  "\<not> (400 \<le> st \<and> st < 600) \<Longrightarrow> http_json (Reply st (Some js)) = Inr js"
  by (simp add: http_json_def raise_for_status_def)

lemma series_code_series: "series_code (series c v t) = Inr (JStr c)"
  by (simp add: series_code_def series_def seq_index_def)

lemma series_latest_series:
  "series_latest (series c v t) = Inr (JObj [(''value'', JStr v), (''dateTime'', JStr t)])"
  by (simp add: series_latest_def series_def seq_index_def)

lemma series_time_series: "series_time (series c v t) = Inr (JStr t)"
  by (simp add: series_time_def series_latest_series)

lemma usgs_step_series:
  "usgs_step rt (ts, gh, wt) (series c v t) =
     ebind (if c = PARAM_GAGE_HEIGHT then float_value rt (JObj [(''value'', JStr v), (''dateTime'', JStr t)]) else Inr gh) (\<lambda>gh'.
     ebind (if c = PARAM_WATER_TEMP then float_value rt (JObj [(''value'', JStr v), (''dateTime'', JStr t)]) else Inr wt) (\<lambda>wt'.
     Inr (JStr t, gh', wt')))"
  by (simp add: usgs_step_def series_code_series series_latest_series)

lemma float_value_series:
  "float_value rt (JObj [(''value'', JStr v), (''dateTime'', JStr t)]) =
     (case str_to_float rt v of None \<Rightarrow> Inl ValueError | Some r \<Rightarrow> Inr (Some r))"
  by (simp add: float_value_def split: option.splits)

lemma usgs_series_body: "usgs_series (usgs_body ss) = Inr ss"
  by (simp add: usgs_series_def usgs_body_def)

lemma urls_differ: "USGS_IV_URL \<noteq> OPEN_METEO_URL"
  by (simp add: USGS_IV_URL_def OPEN_METEO_URL_def)

lemma serve_usgs: "http_json (serve u m USGS_IV_URL) = Inr u"
  by (simp add: serve_def http_json_ok)

lemma serve_meteo: "http_json (serve u m OPEN_METEO_URL) = Inr m"
  using urls_differ by (simp add: serve_def http_json_ok)

lemma weather_extract_body:
  "weather_extract (weather_body t temp w) =
     ebind (number_arg w) (\<lambda>mps. Inr (t, temp, mps_to_mph mps))"
  by (simp add: weather_extract_def weather_body_def)

lemma dec_float_512: "dec_float ''512.3'' = Some 512.3"
  by (simp add: dec_float_def digit_val_def)

lemma dec_float_18: "dec_float ''18.5'' = Some 18.5"
  by (simp add: dec_float_def digit_val_def)

lemma fetch_usgs_serve:
  "snd (fetch_usgs rt (serve (usgs_body ss) m) sent) = usgs_loop rt (JNull, None, None) ss"
  by (simp add: fetch_usgs_def serve_usgs usgs_extract_def usgs_series_body)

lemma code_matches_series:
  "code_matches (series c v t) = (c = PARAM_GAGE_HEIGHT \<or> c = PARAM_WATER_TEMP)"
  by (simp add: code_matches_def series_code_series)

lemma usgs_step_other:
  assumes "series_code s = Inr c" "c \<noteq> JStr PARAM_GAGE_HEIGHT" "c \<noteq> JStr PARAM_WATER_TEMP"
    and "series_time s = Inr t"
  shows "usgs_step rt (ts, gh, wt) s = Inr (t, gh, wt)"
  using assms by (auto simp: usgs_step_def series_time_def ebind_eq_Inr)

lemma usgs_loop_other:
  "\<forall>s\<in>set ss. other_series s \<Longrightarrow>
   \<exists>ts. usgs_loop rt (ts0, gh, wt) ss = Inr (ts, gh, wt)
        \<and> (if ss = [] then ts = ts0 else series_time (last ss) = Inr ts)"
proof (induction ss arbitrary: ts0)
  case Nil
  then show ?case by simp
next
  case (Cons s ss)
  from Cons.prems obtain c t where
    c: "series_code s = Inr c" "c \<noteq> JStr PARAM_GAGE_HEIGHT" "c \<noteq> JStr PARAM_WATER_TEMP"
    and t: "series_time s = Inr t"
    by (auto simp: other_series_def)
  have step: "usgs_step rt (ts0, gh, wt) s = Inr (t, gh, wt)"
    using c t by (rule usgs_step_other)
  from Cons.prems have "\<forall>x\<in>set ss. other_series x" by simp
  from Cons.IH [OF this, of t] obtain ts where
    "usgs_loop rt (t, gh, wt) ss = Inr (ts, gh, wt)"
    "if ss = [] then ts = t else series_time (last ss) = Inr ts"
    by blast
  then show ?case using step t by (auto split: if_splits)
qed

lemma other_series_series:
  "other_series (series c v t) = (c \<noteq> PARAM_GAGE_HEIGHT \<and> c \<noteq> PARAM_WATER_TEMP)"
  by (simp add: other_series_def series_code_series series_time_series)

lemma fetch_usgs_fst: "fst (fetch_usgs rt net sent) = sent @ [USGS_IV_URL]"
  by (simp add: fetch_usgs_def)

lemma fetch_live_usgs_fails:
  "snd (fetch_usgs rt net sent) = Inl e \<Longrightarrow> fetch_live rt net sent = (sent @ [USGS_IV_URL], Inl e)"
  by (simp add: fetch_live_def fetch_usgs_def)

lemma fetch_live_weather_fails:
  "snd (fetch_usgs rt net sent) = Inr u \<Longrightarrow>
   snd (fetch_weather net (sent @ [USGS_IV_URL])) = Inl e \<Longrightarrow>
   fetch_live rt net sent = (sent @ [USGS_IV_URL, OPEN_METEO_URL], Inl e)"
  by (cases u) (simp add: fetch_live_def fetch_usgs_def fetch_weather_def)

lemma fetch_live_merge:
  "snd (fetch_usgs rt net sent) = Inr (ts_r, gh, wt) \<Longrightarrow>
   snd (fetch_weather net (sent @ [USGS_IV_URL])) = Inr (ts_w, temp, wind) \<Longrightarrow>
   fetch_live rt net sent =
     (sent @ [USGS_IV_URL, OPEN_METEO_URL],
      Inr \<lparr>r_ts = py_or ts_r ts_w, r_gh = gh, r_wt = wt, r_at = temp, r_wind = wind\<rparr>)"
  by (simp add: fetch_live_def fetch_usgs_def fetch_weather_def)

lemma getitem_missing:
  assumes "k \<notin> fst ` set kvs"
  shows "getitem (JObj kvs) k = Inl KeyError"
proof -
  have "map_of (rev kvs) k = None"
    using assms by (simp add: map_of_eq_None_iff)
  then show ?thesis by simp
qed

lemma getitem_JObj_cases: "getitem (JObj kvs) k = Inl KeyError \<or> (\<exists>v. getitem (JObj kvs) k = Inr v)"
  by (simp split: option.splits)

lemma fetch_live_cases:
  "(\<exists>e. fetch_live rt net sent = (sent @ [USGS_IV_URL], Inl e)
        \<and> snd (fetch_usgs rt net sent) = Inl e)
   \<or> (\<exists>e u. fetch_live rt net sent = (sent @ [USGS_IV_URL, OPEN_METEO_URL], Inl e)
        \<and> snd (fetch_usgs rt net sent) = Inr u
        \<and> snd (fetch_weather net (sent @ [USGS_IV_URL])) = Inl e)
   \<or> (\<exists>rd u v. fetch_live rt net sent = (sent @ [USGS_IV_URL, OPEN_METEO_URL], Inr rd)
        \<and> snd (fetch_usgs rt net sent) = Inr u
        \<and> snd (fetch_weather net (sent @ [USGS_IV_URL])) = Inr v)"
proof (cases "snd (fetch_usgs rt net sent)")
  case (Inl e)
  then show ?thesis by (simp add: fetch_live_usgs_fails)
next
  case gage: (Inr u)
  show ?thesis
  proof (cases "snd (fetch_weather net (sent @ [USGS_IV_URL]))")
    case (Inl e)
    from fetch_live_weather_fails [OF gage Inl] gage Inl show ?thesis by blast
  next
    case meteo: (Inr v)
    obtain a b c where u: "u = (a, b, c)" by (cases u)
    obtain x y z where v: "v = (x, y, z)" by (cases v)
    from gage meteo u v show ?thesis
      by (simp add: fetch_live_merge)
  qed
qed

lemma run_script_fetch_failed:
  "fetch_live rt net (requests w) = (sent, Inl e) \<Longrightarrow>
   run_script rt net clicked now w = (\<lparr>requests = sent, store = init_db (store w)\<rparr>, FetchFailed e)"
  by (simp add: run_script_def)

lemma http_json_fail_usgs:
  "http_json (net USGS_IV_URL) = Inl e \<Longrightarrow> snd (fetch_usgs rt net sent) = Inl e"
  by (simp add: fetch_usgs_def)

lemma http_json_fail_weather:
  "http_json (net OPEN_METEO_URL) = Inl e \<Longrightarrow> snd (fetch_weather net sent) = Inl e"
  by (simp add: fetch_weather_def)

lemma run_script_requests:
  "requests (fst (run_script rt net clicked now w)) = fst (fetch_live rt net (requests w))"
  by (simp add: run_script_def Let_def split: prod.splits sum.splits)

lemma store_row_Some:
  "store_row ts gh wt temp wind (Some rows) =
     Inr (Some (rows @ [\<lparr>row_id = next_rowid rows, ts_utc = ts, gage_height_ft = gh,
        water_temp_c = wt, air_temp_c = temp, wind_mph = wind\<rparr>]))"
  by (simp add: store_row_def)



lemma in_window_iff: "in_window since r = (\<exists>t. ts_utc r = Some t \<and> since \<le> t)"
  by (simp add: in_window_def split: option.splits)

lemma mset_read_sql: "mset (read_sql since rows) = mset (filter (in_window since) rows)"
  by (simp add: read_sql_def)


lemma read_sql_empty: "(read_sql since rows = []) = (filter (in_window since) rows = [])"
proof -
  have "(read_sql since rows = []) = (mset (read_sql since rows) = {#})"
    by simp
  also have "\<dots> = (filter (in_window since) rows = [])"
    by (simp only: mset_read_sql mset_zero_iff)
  finally show ?thesis .
qed

lemma load_last_24h_Inr:
  "load_last_24h rt now (Some rows) = Inr df \<Longrightarrow>
   df = map (converted rt) (read_sql (isoformat rt (now - timedelta_hours 24)) rows)"
  by (simp add: load_last_24h_def Let_def split: if_splits)


lemma load_last_24h_converts:
  "to_datetime_ok rt (map ts_utc (read_sql (isoformat rt (now - timedelta_hours 24)) rows)) \<Longrightarrow>
   load_last_24h rt now (Some rows)
     = Inr (map (converted rt) (read_sql (isoformat rt (now - timedelta_hours 24)) rows))"
  by (simp add: load_last_24h_def Let_def)

lemma load_last_24h_raises:
  "filter (in_window (isoformat rt (now - timedelta_hours 24))) rows \<noteq> [] \<Longrightarrow>
   \<not> to_datetime_ok rt (map ts_utc (read_sql (isoformat rt (now - timedelta_hours 24)) rows)) \<Longrightarrow>
   load_last_24h rt now (Some rows) = Inl ValueError"
  by (simp add: load_last_24h_def Let_def read_sql_empty)

lemma example_cutoff: "example_now - timedelta_hours 24 = 1714503600000000"
  by (simp add: example_now_def timedelta_hours_def)

lemma example_cutoff_day: "civil_from_days 19843 = (2024, 4, 30)"
  unfolding civil_from_days_def Let_def by simp

lemma example_since:
  "isoformat example_runtime (example_now - timedelta_hours 24) = ''2024-04-30T19:00:00+00:00''"
  by (simp add: example_cutoff example_runtime_def isoformat_utc_def example_cutoff_day
      pad2_def pad4_def digit_char_def)

lemmas instant_defs =
  utc_instant_def clock_instant_def tail_seconds_def tail_fraction_def tail_offset_def
  digits_n_def digit_val_def days_from_civil_def

lemma instant_a: "utc_instant ''2024-05-01T11:45:00.000-07:00'' = Some 1714589100000000"
  by (simp add: instant_defs)

lemma instant_d: "utc_instant ''2024-05-01T05:15:00.000-07:00'' = Some 1714565700000000"
  by (simp add: instant_defs)



lemma layout_a: "layout ''2024-05-01T11:45:00.000-07:00'' = Some (True, True, True)"
  by (simp add: layout_def instant_a)

lemma layout_d: "layout ''2024-05-01T05:15:00.000-07:00'' = Some (True, True, True)"
  by (simp add: layout_def instant_d)



lemma example_in_window:
  "in_window ''2024-04-30T19:00:00+00:00'' row_a"
  "\<not> in_window ''2024-04-30T19:00:00+00:00'' row_b"
  "\<not> in_window ''2024-04-30T19:00:00+00:00'' row_c"
  "in_window ''2024-04-30T19:00:00+00:00'' row_d"
  "\<not> in_window ''2024-04-30T19:00:00+00:00'' row_e"
  "in_window ''2024-04-30T19:00:00+00:00'' row_w"
  by (simp_all add: in_window_def row_a_def row_b_def row_c_def row_d_def row_e_def row_w_def
      list_le_def list_less_def)

lemma example_read_sql:
  "read_sql ''2024-04-30T19:00:00+00:00'' [row_a, row_b, row_c, row_d] = [row_d, row_a]"
proof -
  have "\<not> ts_utc row_a \<le> ts_utc row_d"
    by (simp add: row_a_def row_d_def list_le_def list_less_def)
  then show ?thesis
    by (simp add: read_sql_def example_in_window)
qed

lemma example_column_ok:
  "to_datetime_ok example_runtime (map ts_utc [row_d, row_a])"
  by (simp add: example_runtime_def same_layout_def layout_a layout_d row_a_def row_d_def)

lemma converted_a:
  "converted example_runtime row_a
     = \<lparr>row_id = 1, ts_utc = Some 1714589100000000, gage_height_ft = Some 512.3,
        water_temp_c = Some 18.5, air_temp_c = Some 30, wind_mph = Some 8.94776\<rparr>"
  by (simp add: converted_def example_runtime_def instant_of_def instant_a row_a_def)

lemma converted_d:
  "converted example_runtime row_d
     = \<lparr>row_id = 4, ts_utc = Some 1714565700000000, gage_height_ft = None,
        water_temp_c = Some 18.2, air_temp_c = None, wind_mph = None\<rparr>"
  by (simp add: converted_def example_runtime_def instant_of_def instant_d row_d_def)

lemma example_load:
  "load_last_24h example_runtime example_now (Some [row_a, row_b, row_c, row_d])
     = Inr [converted example_runtime row_d, converted example_runtime row_a]"
  using example_column_ok
  by (simp add: load_last_24h_def Let_def example_since example_read_sql)

lemma gage_down_fails: "snd (fetch_usgs rt (gage_down m) sent) = Inl (HTTPError 503)"
  by (simp add: fetch_usgs_def gage_down_def urls_differ http_json_def raise_for_status_def)

lemma weather_down_fails: "snd (fetch_weather (weather_down u) sent) = Inl RequestException"
  using urls_differ by (simp add: fetch_weather_def weather_down_def http_json_def)

lemma weather_down_gage:
  "snd (fetch_usgs rt (weather_down (usgs_body ss)) sent) = usgs_loop rt (JNull, None, None) ss"
  by (simp add: fetch_usgs_def weather_down_def http_json_ok usgs_extract_def usgs_series_body)

declare blen.simps [simp del]

lemma blen_0 [simp]: "blen 0 = 0"
  by (subst blen.simps) simp

lemma blen_Suc_0 [simp]: "blen (Suc 0) = Suc 0"
  by (subst blen.simps) simp

lemma blen_numeral [simp]: "blen (numeral k) = Suc (blen (numeral k div 2))"
  by (subst blen.simps) simp

lemma fround_value:
  assumes "x \<noteq> 0" and "ilog2 \<bar>x\<bar> = k" and "pow2 (max (k - 52) (- 1074)) = q"
    and "round_half_even (x / q) = m" and "\<bar>of_int m * q\<bar> < 2 ^ 1024"
  shows "fround x = Fin (of_int m * q)"
  using assms by (simp add: fround_def Let_def)








lemma fround_small_times_9:
  "fround (6646139978924579 / 2 ^ 119 * 9) = Fin (7476907476290151 / 2 ^ 116)"
  using fround_value [of "6646139978924579 / 2 ^ 119 * 9" "- 64" "1 / 2 ^ 116" 7476907476290151]
  by (simp add: ilog2_def pow2_def round_half_even_def)

lemma fround_small_over_5:
  "fround (7476907476290151 / 2 ^ 116 / 5) = Fin (5981525981032121 / 2 ^ 118)"
  using fround_value [of "7476907476290151 / 2 ^ 116 / 5" "- 66" "1 / 2 ^ 118" 5981525981032121]
  by (simp add: ilog2_def pow2_def round_half_even_def)

lemma fround_small_plus_32:
  "fround (5981525981032121 / 2 ^ 118 + 32) = Fin 32"
  using fround_value [of "5981525981032121 / 2 ^ 118 + 32" 5 "1 / 2 ^ 47" "32 * 2 ^ 47"]
  by (simp add: ilog2_def pow2_def round_half_even_def)

lemma c_to_f_Fin:
  "c_to_f (Some (Fin c)) =
     Inr (Some (case fround (c * 9) of
                  Fin a \<Rightarrow> (case fround (a / 5) of Fin b \<Rightarrow> fround (b + 32) | z \<Rightarrow> z)
                | z \<Rightarrow> z))"
  by (simp add: c_to_f_def split: pyfloat.splits)

subsection \<open>Unit converters\<close>




text \<open>
  Rounding also merges inputs: the float 1e-20, which is \<open>6646139978924579 / 2 ^ 119\<close>,
  is mapped to 32, as 0 is.
\<close>

lemma c_to_f_small_input:
  "c_to_f (Some (Fin (6646139978924579 / 2 ^ 119))) = Inr (Some (Fin 32))"
  using fround_small_times_9 fround_small_over_5 fround_small_plus_32
  by (simp add: c_to_f_Fin)

subsection \<open>The gage fetch\<close>

text \<open>
  Claim C1, as amended. The timestamp that \<open>fetch_usgs\<close> returns is the timestamp of
  the last series of the collection in iteration order, whether or not the code of that
  series is one of the two requested codes, and is absent for an empty collection. For a
  gage response with a gage-height series (value 512.3 at time \<open>Ta\<close>) followed by a
  water-temperature series (value 18.5 at a later time \<open>Tb\<close>), and a weather response
  (time \<open>Tc\<close>, 30.0 degrees, wind 4.0 m/s), the fetch step issues the two requests and
  yields the reading with timestamp \<open>Tb\<close>, gage height 512.3, water temperature 18.5,
  air temperature 30.0 and wind 4.0 * 2.23694 mph.
\<close>

theorem fetch_usgs_timestamp_of_last_series:
  "(snd (fetch_usgs rt net sent) = Inr (ts, gh, wt) \<longrightarrow>
      (\<exists>st js ss. net USGS_IV_URL = Reply st (Some js) \<and> usgs_series js = Inr ss
         \<and> (if ss = [] then ts = JNull else series_time (last ss) = Inr ts)))
   \<and> (str_to_float rt ''512.3'' = Some 512.3 \<and> str_to_float rt ''18.5'' = Some 18.5
        \<and> Ta < Tb \<longrightarrow>
      fetch_live rt
        (serve (usgs_body [series ''00065'' ''512.3'' Ta, series ''00010'' ''18.5'' Tb])
               (weather_body (JStr Tc) (JFloat 30.0) (JFloat 4.0))) sent
      = (sent @ [USGS_IV_URL, OPEN_METEO_URL],
         Inr \<lparr>r_ts = JStr Tb, r_gh = Some 512.3, r_wt = Some 18.5,
              r_at = JFloat 30.0, r_wind = Some (4.0 * 2.23694)\<rparr>))"
proof (intro conjI impI)
  assume ret: "snd (fetch_usgs rt net sent) = Inr (ts, gh, wt)"
  then obtain js where js: "http_json (net USGS_IV_URL) = Inr js"
    and ex: "usgs_extract rt js = Inr (ts, gh, wt)"
    by (auto simp: fetch_usgs_def ebind_eq_Inr)
  from ex obtain ss where ss: "usgs_series js = Inr ss"
    and loop: "usgs_loop rt (JNull, None, None) ss = Inr (ts, gh, wt)"
    by (auto simp: usgs_extract_def ebind_eq_Inr)
  from js obtain st where st: "net USGS_IV_URL = Reply st (Some js)"
    using http_json_Inr by blast
  have "if ss = [] then ts = JNull else series_time (last ss) = Inr ts"
  proof (cases "ss = []")
    case True
    with loop show ?thesis by simp
  next
    case False
    with usgs_loop_last [OF loop] show ?thesis by simp
  qed
  with st ss show "\<exists>st js ss. net USGS_IV_URL = Reply st (Some js) \<and> usgs_series js = Inr ss
         \<and> (if ss = [] then ts = JNull else series_time (last ss) = Inr ts)"
    by blast
next
  assume h: "str_to_float rt ''512.3'' = Some 512.3 \<and> str_to_float rt ''18.5'' = Some 18.5
        \<and> Ta < Tb"
  then have "Tb \<noteq> []"
    by (auto simp: list_less_def)
  then have or: "py_or (JStr Tb) (JStr Tc) = JStr Tb"
    by (simp add: py_or_def)
  have usgs: "usgs_extract rt (usgs_body [series ''00065'' ''512.3'' Ta, series ''00010'' ''18.5'' Tb])
      = Inr (JStr Tb, Some 512.3, Some 18.5)"
    using h by (simp add: usgs_extract_def usgs_series_body usgs_step_series float_value_series
        PARAM_GAGE_HEIGHT_def PARAM_WATER_TEMP_def)
  have meteo: "weather_extract (weather_body (JStr Tc) (JFloat 30.0) (JFloat 4.0))
      = Inr (JStr Tc, JFloat 30.0, Some (4.0 * 2.23694))"
    by (simp add: weather_extract_body mps_to_mph_def)
  show "fetch_live rt
        (serve (usgs_body [series ''00065'' ''512.3'' Ta, series ''00010'' ''18.5'' Tb])
               (weather_body (JStr Tc) (JFloat 30.0) (JFloat 4.0))) sent
      = (sent @ [USGS_IV_URL, OPEN_METEO_URL],
         Inr \<lparr>r_ts = JStr Tb, r_gh = Some 512.3, r_wt = Some 18.5,
              r_at = JFloat 30.0, r_wind = Some (4.0 * 2.23694)\<rparr>)"
    by (simp only: fetch_live_def fetch_usgs_def fetch_weather_def serve_usgs serve_meteo
        ebind_Inr usgs meteo or prod.case sum.case append_assoc append_Cons append_Nil)
qed

theorem fetch_usgs_timestamp_of_last_series_witness:
  "str_to_float example_runtime ''512.3'' = Some 512.3
   \<and> str_to_float example_runtime ''18.5'' = Some 18.5
   \<and> ''2024-05-01T12:00:00.000-07:00'' < ''2024-05-01T12:15:00.000-07:00''
   \<and> snd (fetch_usgs example_runtime
        (serve (usgs_body [series ''00065'' ''512.3'' ''2024-05-01T12:00:00.000-07:00'',
                           series ''00010'' ''18.5'' ''2024-05-01T12:15:00.000-07:00''])
               (weather_body (JStr ''2024-05-01T19:15'') (JFloat 30.0) (JFloat 4.0))) [])
      = Inr (JStr ''2024-05-01T12:15:00.000-07:00'', Some 512.3, Some 18.5)
   \<and> series_time (series ''00010'' ''18.5'' ''2024-05-01T12:15:00.000-07:00'')
      = Inr (JStr ''2024-05-01T12:15:00.000-07:00'')
   \<and> fetch_live example_runtime
        (serve (usgs_body [series ''00065'' ''512.3'' ''2024-05-01T12:00:00.000-07:00'',
                           series ''00010'' ''18.5'' ''2024-05-01T12:15:00.000-07:00''])
               (weather_body (JStr ''2024-05-01T19:15'') (JFloat 30.0) (JFloat 4.0))) []
      = ([USGS_IV_URL, OPEN_METEO_URL],
         Inr \<lparr>r_ts = JStr ''2024-05-01T12:15:00.000-07:00'', r_gh = Some 512.3,
              r_wt = Some 18.5, r_at = JFloat 30.0, r_wind = Some 8.94776\<rparr>)"
proof -
  let ?u = "usgs_body [series ''00065'' ''512.3'' ''2024-05-01T12:00:00.000-07:00'',
                           series ''00010'' ''18.5'' ''2024-05-01T12:15:00.000-07:00'']"
  let ?net = "serve ?u (weather_body (JStr ''2024-05-01T19:15'') (JFloat 30.0) (JFloat 4.0))"
  have h: "str_to_float example_runtime ''512.3'' = Some 512.3
     \<and> str_to_float example_runtime ''18.5'' = Some 18.5
     \<and> ''2024-05-01T12:00:00.000-07:00'' < ''2024-05-01T12:15:00.000-07:00''"
    by (simp add: example_runtime_def dec_float_512 dec_float_18 list_less_def)
  have g: "snd (fetch_usgs example_runtime ?net [])
      = Inr (JStr ''2024-05-01T12:15:00.000-07:00'', Some 512.3, Some 18.5)"
    by (simp add: fetch_usgs_serve usgs_step_series float_value_series example_runtime_def
        dec_float_512 dec_float_18 PARAM_GAGE_HEIGHT_def PARAM_WATER_TEMP_def)
  have both: "(snd (fetch_usgs example_runtime ?net [])
         = Inr (JStr ''2024-05-01T12:15:00.000-07:00'', Some 512.3, Some 18.5) \<longrightarrow>
      (\<exists>st js ss. ?net USGS_IV_URL = Reply st (Some js) \<and> usgs_series js = Inr ss
         \<and> (if ss = [] then JStr ''2024-05-01T12:15:00.000-07:00'' = JNull
             else series_time (last ss) = Inr (JStr ''2024-05-01T12:15:00.000-07:00''))))
     \<and> (str_to_float example_runtime ''512.3'' = Some 512.3
        \<and> str_to_float example_runtime ''18.5'' = Some 18.5
        \<and> ''2024-05-01T12:00:00.000-07:00'' < ''2024-05-01T12:15:00.000-07:00'' \<longrightarrow>
      fetch_live example_runtime ?net []
      = ([] @ [USGS_IV_URL, OPEN_METEO_URL],
         Inr \<lparr>r_ts = JStr ''2024-05-01T12:15:00.000-07:00'', r_gh = Some 512.3,
              r_wt = Some 18.5, r_at = JFloat 30.0, r_wind = Some (4.0 * 2.23694)\<rparr>))"
    by (rule fetch_usgs_timestamp_of_last_series)
  from both g obtain st js ss where
    "?net USGS_IV_URL = Reply st (Some js)" "usgs_series js = Inr ss"
    "if ss = [] then JStr ''2024-05-01T12:15:00.000-07:00'' = JNull
     else series_time (last ss) = Inr (JStr ''2024-05-01T12:15:00.000-07:00'')"
    by blast
  then have t: "series_time (series ''00010'' ''18.5'' ''2024-05-01T12:15:00.000-07:00'')
      = Inr (JStr ''2024-05-01T12:15:00.000-07:00'')"
    by (auto simp: serve_def usgs_series_body split: if_splits)
  from both h have "fetch_live example_runtime ?net []
      = ([] @ [USGS_IV_URL, OPEN_METEO_URL],
         Inr \<lparr>r_ts = JStr ''2024-05-01T12:15:00.000-07:00'', r_gh = Some 512.3,
              r_wt = Some 18.5, r_at = JFloat 30.0, r_wind = Some (4.0 * 2.23694)\<rparr>)"
    by blast
  with h g t show ?thesis by simp
qed

text \<open>
  The claim as first stated takes the timestamp from the last series whose code matched.
  With a gage-height series followed by a discharge series (code 00060), the fetch
  returns the timestamp of the discharge series.
\<close>

theorem last_matched_timestamp_counterexample:
  "snd (fetch_usgs example_runtime
          (serve (usgs_body [series ''00065'' ''512.3'' ''2024-05-01T12:00:00.000-07:00'',
                             series ''00060'' ''1200'' ''2024-05-01T12:15:00.000-07:00'']) JNull) [])
     = Inr (JStr ''2024-05-01T12:15:00.000-07:00'', Some 512.3, None)
   \<and> last_matched_time [series ''00065'' ''512.3'' ''2024-05-01T12:00:00.000-07:00'',
                         series ''00060'' ''1200'' ''2024-05-01T12:15:00.000-07:00'']
     = Inr (JStr ''2024-05-01T12:00:00.000-07:00'')
   \<and> JStr ''2024-05-01T12:15:00.000-07:00'' \<noteq> JStr ''2024-05-01T12:00:00.000-07:00''"
  by (simp add: fetch_usgs_serve usgs_step_series float_value_series example_runtime_def
      dec_float_512 last_matched_time_def code_matches_series series_time_series
      PARAM_GAGE_HEIGHT_def PARAM_WATER_TEMP_def)

text \<open>
  Claim C2, as amended. When the response decodes, every series of its collection can be
  read and none has one of the two requested codes, \<open>fetch_usgs\<close> raises no error and
  returns gage height and water temperature absent; the timestamp is absent when the
  collection is empty and is otherwise the timestamp of the last series.
\<close>

theorem fetch_usgs_no_matching_series:
  assumes "net USGS_IV_URL = Reply st (Some js)" and "\<not> (400 \<le> st \<and> st < 600)"
    and "usgs_series js = Inr ss" and "\<forall>s\<in>set ss. other_series s"
  shows "\<exists>ts. snd (fetch_usgs rt net sent) = Inr (ts, None, None)
           \<and> (if ss = [] then ts = JNull else series_time (last ss) = Inr ts)"
proof -
  have "snd (fetch_usgs rt net sent) = usgs_loop rt (JNull, None, None) ss"
    using assms(1-3) by (simp add: fetch_usgs_def http_json_ok usgs_extract_def)
  with usgs_loop_other [OF assms(4), of rt JNull None None] show ?thesis
    by simp
qed

theorem fetch_usgs_no_matching_series_witness:
  "serve (usgs_body [series ''00060'' ''1200'' ''2024-05-01T12:15:00.000-07:00'']) JNull USGS_IV_URL
     = Reply 200 (Some (usgs_body [series ''00060'' ''1200'' ''2024-05-01T12:15:00.000-07:00'']))
   \<and> other_series (series ''00060'' ''1200'' ''2024-05-01T12:15:00.000-07:00'')
   \<and> snd (fetch_usgs example_runtime
        (serve (usgs_body [series ''00060'' ''1200'' ''2024-05-01T12:15:00.000-07:00'']) JNull) [])
     = Inr (JStr ''2024-05-01T12:15:00.000-07:00'', None, None)
   \<and> snd (fetch_usgs example_runtime (serve (usgs_body []) JNull) []) = Inr (JNull, None, None)"
proof -
  let ?s = "series ''00060'' ''1200'' ''2024-05-01T12:15:00.000-07:00''"
  have r: "serve (usgs_body [?s]) JNull USGS_IV_URL = Reply 200 (Some (usgs_body [?s]))"
    by (simp add: serve_def)
  have r0: "serve (usgs_body []) JNull USGS_IV_URL = Reply 200 (Some (usgs_body []))"
    by (simp add: serve_def)
  have st: "\<not> (400 \<le> (200::nat) \<and> (200::nat) < 600)"
    by simp
  have o: "other_series ?s"
    by (simp add: other_series_series PARAM_GAGE_HEIGHT_def PARAM_WATER_TEMP_def)
  then have all: "\<forall>s\<in>set [?s]. other_series s"
    by simp
  have none: "\<forall>s\<in>set ([]::json list). other_series s"
    by simp
  have "\<exists>ts. snd (fetch_usgs example_runtime (serve (usgs_body [?s]) JNull) []) = Inr (ts, None, None)
      \<and> series_time ?s = Inr ts"
    using fetch_usgs_no_matching_series [where net = "serve (usgs_body [?s]) JNull"
        and rt = example_runtime and sent = "[]", OF r st usgs_series_body all]
    by simp
  then have one: "snd (fetch_usgs example_runtime (serve (usgs_body [?s]) JNull) [])
      = Inr (JStr ''2024-05-01T12:15:00.000-07:00'', None, None)"
    by (auto simp: series_time_series)
  have zero: "snd (fetch_usgs example_runtime (serve (usgs_body []) JNull) []) = Inr (JNull, None, None)"
    using fetch_usgs_no_matching_series [where net = "serve (usgs_body []) JNull"
        and rt = example_runtime and sent = "[]", OF r0 st usgs_series_body none]
    by simp
  from r o one zero show ?thesis by blast
qed

text \<open>
  The claim as first stated has all three values absent: a response whose only series is
  a discharge series yields the timestamp of that series.
\<close>

theorem no_matching_series_counterexample:
  "\<not> code_matches (series ''00060'' ''1200'' ''2024-05-01T12:15:00.000-07:00'')
   \<and> snd (fetch_usgs example_runtime
        (serve (usgs_body [series ''00060'' ''1200'' ''2024-05-01T12:15:00.000-07:00'']) JNull) [])
     = Inr (JStr ''2024-05-01T12:15:00.000-07:00'', None, None)
   \<and> JStr ''2024-05-01T12:15:00.000-07:00'' \<noteq> JNull"
  by (simp add: fetch_usgs_serve usgs_step_series code_matches_series
      PARAM_GAGE_HEIGHT_def PARAM_WATER_TEMP_def)

subsection \<open>The weather fetch\<close>

text \<open>
  Claim C7. When the weather service answers with a decodable body whose \<open>current\<close>
  object lacks \<open>time\<close>, \<open>temperature_2m\<close> or \<open>wind_speed_10m\<close>, \<open>fetch_weather\<close>
  raises \<open>KeyError\<close>: it returns no result, and no missing field is read as absent.
\<close>

theorem fetch_weather_missing_field:
  assumes "net OPEN_METEO_URL = Reply st (Some js)" and "\<not> (400 \<le> st \<and> st < 600)"
    and "getitem js ''current'' = Inr (JObj cur)"
    and "''time'' \<notin> fst ` set cur \<or> ''temperature_2m'' \<notin> fst ` set cur
         \<or> ''wind_speed_10m'' \<notin> fst ` set cur"
  shows "snd (fetch_weather net sent) = Inl KeyError"
proof -
  have "weather_extract js = Inl KeyError"
    using assms(3,4) getitem_JObj_cases [of cur "''time''"]
      getitem_JObj_cases [of cur "''temperature_2m''"]
    by (auto simp: weather_extract_def dest: getitem_missing)
  then show ?thesis
    using assms(1,2) by (simp add: fetch_weather_def http_json_ok)
qed

theorem fetch_weather_missing_field_witness:
  "serve JNull (JObj [(''current'',
       JObj [(''time'', JStr ''2024-05-01T19:15''), (''temperature_2m'', JFloat 30)])])
     OPEN_METEO_URL
     = Reply 200 (Some (JObj [(''current'',
         JObj [(''time'', JStr ''2024-05-01T19:15''), (''temperature_2m'', JFloat 30)])]))
   \<and> ''wind_speed_10m'' \<notin> fst ` set [(''time'', JStr ''2024-05-01T19:15''),
                                       (''temperature_2m'', JFloat 30)]
   \<and> snd (fetch_weather
        (serve JNull (JObj [(''current'',
           JObj [(''time'', JStr ''2024-05-01T19:15''), (''temperature_2m'', JFloat 30)])]))
        [USGS_IV_URL]) = Inl KeyError"
proof -
  let ?cur = "[(''time'', JStr ''2024-05-01T19:15''), (''temperature_2m'', JFloat 30)]"
  let ?js = "JObj [(''current'', JObj ?cur)]"
  have r: "serve JNull ?js OPEN_METEO_URL = Reply 200 (Some ?js)"
    using urls_differ by (simp add: serve_def)
  have st: "\<not> (400 \<le> (200::nat) \<and> (200::nat) < 600)"
    by simp
  have c: "getitem ?js ''current'' = Inr (JObj ?cur)"
    by simp
  have m: "''wind_speed_10m'' \<notin> fst ` set ?cur"
    by simp
  then have m': "''time'' \<notin> fst ` set ?cur \<or> ''temperature_2m'' \<notin> fst ` set ?cur
         \<or> ''wind_speed_10m'' \<notin> fst ` set ?cur"
    by blast
  have "snd (fetch_weather (serve JNull ?js) [USGS_IV_URL]) = Inl KeyError"
    using fetch_weather_missing_field [where net = "serve JNull ?js", OF r st c m'] .
  with r m show ?thesis by blast
qed

subsection \<open>The merged reading\<close>

text \<open>
  Claim C5. When both fetches succeed and the gage timestamp is a timestamp of the data
  model, the timestamp of the merged reading is the gage timestamp if that is present
  and the weather timestamp otherwise; the other four fields are those of the two fetch
  results.
\<close>

theorem fetch_live_merges_fields:
  assumes "snd (fetch_usgs rt net sent) = Inr (ts_r, gh, wt)"
    and "snd (fetch_weather net (fst (fetch_usgs rt net sent))) = Inr (ts_w, temp, wind)"
    and "is_timestamp ts_r"
  shows "\<exists>rd. snd (fetch_live rt net sent) = Inr rd
           \<and> r_ts rd = (if ts_r \<noteq> JNull then ts_r else ts_w)
           \<and> r_gh rd = gh \<and> r_wt rd = wt \<and> r_at rd = temp \<and> r_wind rd = wind"
proof -
  have "truthy ts_r = (ts_r \<noteq> JNull)"
    using assms(3) by (cases ts_r) simp_all
  then show ?thesis
    using assms(1,2) by (simp add: fetch_live_merge fetch_usgs_fst py_or_def)
qed

theorem fetch_live_merges_fields_witness:
  "snd (fetch_usgs example_runtime
          (serve (usgs_body [series ''00010'' ''18.5'' ''2024-05-01T12:15:00.000-07:00''])
                 (weather_body (JStr ''2024-05-01T19:15'') (JFloat 30) (JFloat 4))) [])
     = Inr (JStr ''2024-05-01T12:15:00.000-07:00'', None, Some 18.5)
   \<and> is_timestamp (JStr ''2024-05-01T12:15:00.000-07:00'')
   \<and> snd (fetch_live example_runtime
          (serve (usgs_body [series ''00010'' ''18.5'' ''2024-05-01T12:15:00.000-07:00''])
                 (weather_body (JStr ''2024-05-01T19:15'') (JFloat 30) (JFloat 4))) [])
     = Inr \<lparr>r_ts = JStr ''2024-05-01T12:15:00.000-07:00'', r_gh = None, r_wt = Some 18.5,
            r_at = JFloat 30, r_wind = Some 8.94776\<rparr>
   \<and> is_timestamp JNull
   \<and> snd (fetch_live example_runtime
          (serve (usgs_body [])
                 (weather_body (JStr ''2024-05-01T19:15'') (JFloat 30) (JFloat 4))) [])
     = Inr \<lparr>r_ts = JStr ''2024-05-01T19:15'', r_gh = None, r_wt = None,
            r_at = JFloat 30, r_wind = Some 8.94776\<rparr>"
proof -
  let ?m = "weather_body (JStr ''2024-05-01T19:15'') (JFloat 30) (JFloat 4)"
  let ?net = "serve (usgs_body [series ''00010'' ''18.5'' ''2024-05-01T12:15:00.000-07:00'']) ?m"
  let ?quiet = "serve (usgs_body []) ?m"
  have u: "snd (fetch_usgs example_runtime ?net [])
      = Inr (JStr ''2024-05-01T12:15:00.000-07:00'', None, Some 18.5)"
    by (simp add: fetch_usgs_serve usgs_step_series float_value_series example_runtime_def
        dec_float_18 PARAM_GAGE_HEIGHT_def PARAM_WATER_TEMP_def)
  have u0: "snd (fetch_usgs example_runtime ?quiet []) = Inr (JNull, None, None)"
    by (simp add: fetch_usgs_serve)
  have w: "snd (fetch_weather ?net (fst (fetch_usgs example_runtime ?net [])))
      = Inr (JStr ''2024-05-01T19:15'', JFloat 30, Some 8.94776)"
    by (simp add: fetch_weather_def serve_meteo weather_extract_body mps_to_mph_def)
  have w0: "snd (fetch_weather ?quiet (fst (fetch_usgs example_runtime ?quiet [])))
      = Inr (JStr ''2024-05-01T19:15'', JFloat 30, Some 8.94776)"
    by (simp add: fetch_weather_def serve_meteo weather_extract_body mps_to_mph_def)
  have t: "is_timestamp (JStr ''2024-05-01T12:15:00.000-07:00'')" and t0: "is_timestamp JNull"
    by simp_all
  obtain rd where rd: "snd (fetch_live example_runtime ?net []) = Inr rd"
    "r_ts rd = (if JStr ''2024-05-01T12:15:00.000-07:00'' \<noteq> JNull
                then JStr ''2024-05-01T12:15:00.000-07:00'' else JStr ''2024-05-01T19:15'')"
    "r_gh rd = None" "r_wt rd = Some 18.5" "r_at rd = JFloat 30" "r_wind rd = Some 8.94776"
    using fetch_live_merges_fields [OF u w t] by blast
  obtain rd0 where rd0: "snd (fetch_live example_runtime ?quiet []) = Inr rd0"
    "r_ts rd0 = (if JNull \<noteq> JNull then JNull else JStr ''2024-05-01T19:15'')"
    "r_gh rd0 = None" "r_wt rd0 = None" "r_at rd0 = JFloat 30" "r_wind rd0 = Some 8.94776"
    using fetch_live_merges_fields [OF u0 w0 t0] by blast
  have "rd = \<lparr>r_ts = JStr ''2024-05-01T12:15:00.000-07:00'', r_gh = None, r_wt = Some 18.5,
            r_at = JFloat 30, r_wind = Some 8.94776\<rparr>"
    using rd(2-6) by (cases rd) simp
  moreover have "rd0 = \<lparr>r_ts = JStr ''2024-05-01T19:15'', r_gh = None, r_wt = None,
            r_at = JFloat 30, r_wind = Some 8.94776\<rparr>"
    using rd0(2-6) by (cases rd0) simp
  ultimately show ?thesis
    using u t t0 rd(1) rd0(1) by simp
qed

subsection \<open>The stored rows of the last 24 hours\<close>




text \<open>
  Claim C6, as amended. For a reading whose timestamp is present, not below the text of
  the cutoff and convertible, \<open>store_row\<close> on an empty table followed by
  \<open>load_last_24h\<close> returns exactly one row: its four measurements are those of the
  reading, an absent measurement staying absent, and its timestamp is the UTC datetime
  converted from the timestamp text of the reading.
\<close>

theorem store_then_load_returns_the_row:
  assumes "isoformat rt (now - timedelta_hours 24) \<le> t" and "to_datetime_ok rt [Some t]"
  shows "ebind (store_row (Some t) gh wt temp wind (Some [])) (load_last_24h rt now)
     = Inr [\<lparr>row_id = 1, ts_utc = datetime_of rt (Some t), gage_height_ft = gh,
              water_temp_c = wt, air_temp_c = temp, wind_mph = wind\<rparr>]"
  using assms
  by (simp add: store_row_Some next_rowid_def load_last_24h_def Let_def read_sql_def
      in_window_def converted_def)

theorem store_then_load_returns_the_row_witness:
  "isoformat example_runtime (example_now - timedelta_hours 24)
     \<le> ''2024-05-01T11:45:00.000-07:00''
   \<and> to_datetime_ok example_runtime [Some ''2024-05-01T11:45:00.000-07:00'']
   \<and> datetime_of example_runtime (Some ''2024-05-01T11:45:00.000-07:00'')
       = Some 1714589100000000
   \<and> ebind (store_row (Some ''2024-05-01T11:45:00.000-07:00'') (Some 512.3) None (Some 30) None
             (Some []))
        (load_last_24h example_runtime example_now)
     = Inr [\<lparr>row_id = 1, ts_utc = Some 1714589100000000, gage_height_ft = Some 512.3,
             water_temp_c = None, air_temp_c = Some 30, wind_mph = None\<rparr>]"
proof -
  have a: "isoformat example_runtime (example_now - timedelta_hours 24)
      \<le> ''2024-05-01T11:45:00.000-07:00''"
    by (simp add: example_since list_le_def list_less_def)
  have b: "to_datetime_ok example_runtime [Some ''2024-05-01T11:45:00.000-07:00'']"
    by (simp add: example_runtime_def same_layout_def layout_a)
  have d: "datetime_of example_runtime (Some ''2024-05-01T11:45:00.000-07:00'')
      = Some 1714589100000000"
    by (simp add: example_runtime_def instant_of_def instant_a)
  from a b d store_then_load_returns_the_row [OF a b, of "Some 512.3" None "Some 30" None]
  show ?thesis by simp
qed

text \<open>
  The claim as first stated covers every reading. A reading without timestamp is stored,
  and the frame loaded right afterwards is empty.
\<close>

theorem store_then_load_counterexample:
  "ebind (store_row None (Some 512.3) (Some 18.5) (Some 30) (Some 8.94776) (Some []))
     (load_last_24h example_runtime example_now) = Inr []"
  by (simp add: store_row_Some load_last_24h_def Let_def read_sql_def in_window_def)

text \<open>
  Claim C9. A row stored with an absent timestamp is in no frame that \<open>load_last_24h\<close>
  returns, whatever the clock and whatever the table holds: a frame consists of the
  conversions of the rows that the query selects, the row is not among them, and none of
  them has an absent timestamp.
\<close>

theorem null_timestamp_never_loaded:
  assumes "store_row None gh wt temp wind (Some rows) = Inr (Some rows1)"
    and "load_last_24h rt now (Some rows2) = Inr df"
  shows "ts_utc (last rows1) = None \<and> row_id (last rows1) = next_rowid rows
         \<and> df = map (converted rt) (read_sql (isoformat rt (now - timedelta_hours 24)) rows2)
         \<and> set (read_sql (isoformat rt (now - timedelta_hours 24)) rows2) \<subseteq> set rows2
         \<and> last rows1 \<notin> set (read_sql (isoformat rt (now - timedelta_hours 24)) rows2)
         \<and> (\<forall>r\<in>set (read_sql (isoformat rt (now - timedelta_hours 24)) rows2).
               ts_utc r \<noteq> None)"
proof -
  let ?sel = "read_sql (isoformat rt (now - timedelta_hours 24)) rows2"
  have "set ?sel = {r \<in> set rows2. in_window (isoformat rt (now - timedelta_hours 24)) r}"
    using mset_read_sql [of "isoformat rt (now - timedelta_hours 24)" rows2]
    by (metis set_filter set_mset_mset)
  then have sub: "set ?sel \<subseteq> set rows2" and none: "\<forall>r\<in>set ?sel. ts_utc r \<noteq> None"
    by (auto simp: in_window_iff)
  have l: "ts_utc (last rows1) = None \<and> row_id (last rows1) = next_rowid rows"
    using assms(1) by (auto simp: store_row_Some)
  with none have "last rows1 \<notin> set ?sel"
    by auto
  with l sub none load_last_24h_Inr [OF assms(2)] show ?thesis
    by blast
qed

theorem null_timestamp_never_loaded_witness:
  "store_row None (Some 512) None None None (Some [row_a, row_b])
     = Inr (Some [row_a, row_b, row_c])
   \<and> load_last_24h example_runtime example_now (Some [row_a, row_b, row_c, row_d])
     = Inr [converted example_runtime row_d, converted example_runtime row_a]
   \<and> read_sql (isoformat example_runtime (example_now - timedelta_hours 24))
        [row_a, row_b, row_c, row_d] = [row_d, row_a]
   \<and> ts_utc row_c = None \<and> row_id row_c = next_rowid [row_a, row_b]
   \<and> row_c \<notin> set [row_d, row_a]
   \<and> ts_utc row_d \<noteq> None \<and> ts_utc row_a \<noteq> None"
proof -
  let ?since = "isoformat example_runtime (example_now - timedelta_hours 24)"
  have s: "store_row None (Some 512) None None None (Some [row_a, row_b])
     = Inr (Some [row_a, row_b, row_c])"
    by (simp add: store_row_Some next_rowid_def row_a_def row_b_def row_c_def)
  have sel: "read_sql ?since [row_a, row_b, row_c, row_d] = [row_d, row_a]"
    by (simp only: example_since example_read_sql)
  from null_timestamp_never_loaded [OF s example_load] s example_load sel
  show ?thesis by simp
qed

subsection \<open>A run whose fetch succeeds\<close>

text \<open>
  For contrast with the failing runs below: after a successful fetch a press of the
  button writes the row, and without a press the table stays as \<open>init_db\<close> left it.
  The example is a first run on a fresh database file with the button pressed.
\<close>

lemma run_script_stores_on_click:
  assumes "fetch_live rt net (requests w) = (sent, Inr rd)"
    and "number_arg (r_at rd) = Inr temp"
    and "snapshot rt rd temp (init_db (store w)) = Inr d1"
  shows "store (fst (run_script rt net True now w)) = d1"
  using assms by (simp add: run_script_def Let_def split: sum.splits)

lemma run_script_keeps_without_click:
  "store (fst (run_script rt net False now w)) = init_db (store w)"
  by (simp add: run_script_def Let_def split: sum.splits prod.splits)

lemma run_script_example:
  "run_script example_runtime
     (serve (usgs_body [series ''00065'' ''512.3'' ''2024-05-01T11:30:00.000-07:00'',
                        series ''00010'' ''18.5'' ''2024-05-01T11:45:00.000-07:00''])
            (weather_body (JStr ''2024-05-01T18:45'') (JInt 30) (JFloat 4)))
     True example_now \<lparr>requests = [], store = None\<rparr>
   = (\<lparr>requests = [USGS_IV_URL, OPEN_METEO_URL], store = Some [row_a]\<rparr>,
      Page \<lparr>r_ts = JStr ''2024-05-01T11:45:00.000-07:00'', r_gh = Some 512.3,
             r_wt = Some 18.5, r_at = JInt 30, r_wind = Some 8.94776\<rparr>
           [converted example_runtime row_a])"
proof -
  let ?net = "serve (usgs_body [series ''00065'' ''512.3'' ''2024-05-01T11:30:00.000-07:00'',
                        series ''00010'' ''18.5'' ''2024-05-01T11:45:00.000-07:00''])
            (weather_body (JStr ''2024-05-01T18:45'') (JInt 30) (JFloat 4))"
  let ?rd = "\<lparr>r_ts = JStr ''2024-05-01T11:45:00.000-07:00'', r_gh = Some 512.3,
             r_wt = Some 18.5, r_at = JInt 30, r_wind = Some 8.94776\<rparr>"
  have u: "snd (fetch_usgs example_runtime ?net [])
      = Inr (JStr ''2024-05-01T11:45:00.000-07:00'', Some 512.3, Some 18.5)"
    by (simp add: fetch_usgs_serve usgs_step_series float_value_series example_runtime_def
        dec_float_512 dec_float_18 PARAM_GAGE_HEIGHT_def PARAM_WATER_TEMP_def)
  have w: "snd (fetch_weather ?net ([] @ [USGS_IV_URL]))
      = Inr (JStr ''2024-05-01T18:45'', JInt 30, Some 8.94776)"
    by (simp add: fetch_weather_def serve_meteo weather_extract_body mps_to_mph_def)
  have live: "fetch_live example_runtime ?net [] = ([USGS_IV_URL, OPEN_METEO_URL], Inr ?rd)"
    using fetch_live_merge [OF u w] by (simp add: py_or_def)
  have snap: "snapshot example_runtime ?rd (Some 30) (Some []) = Inr (Some [row_a])"
    by (simp add: snapshot_def int64_def store_row_Some next_rowid_def row_a_def)
  have "in_window ''2024-04-30T19:00:00+00:00'' row_a"
    by (rule example_in_window)
  then have sel: "read_sql ''2024-04-30T19:00:00+00:00'' [row_a] = [row_a]"
    by (simp add: read_sql_def)
  have "to_datetime_ok example_runtime (map ts_utc [row_a])"
    by (simp add: example_runtime_def same_layout_def layout_a row_a_def)
  then have load: "load_last_24h example_runtime example_now (Some [row_a])
      = Inr [converted example_runtime row_a]"
    by (simp add: load_last_24h_def Let_def example_since sel)
  show ?thesis
    using live snap load by (simp add: run_script_def init_db_def)
qed

subsection \<open>A run whose fetch fails\<close>

text \<open>
  Claim C4. If the request to either service fails (no reply, an error status, an
  undecodable body), the fetch step ends with that error and without a reading, the run
  shows the error and stops, and the table is as \<open>init_db\<close> left it: no row is written,
  even when the button was pressed.
\<close>

theorem fetch_failure_stores_nothing:
  assumes "http_json (net USGS_IV_URL) = Inl e1 \<or> http_json (net OPEN_METEO_URL) = Inl e2"
  shows "\<exists>e. snd (fetch_live rt net (requests w)) = Inl e
           \<and> snd (run_script rt net clicked now w) = FetchFailed e
           \<and> store (fst (run_script rt net clicked now w)) = init_db (store w)
           \<and> (\<forall>rows. store w = Some rows \<longrightarrow>
                store (fst (run_script rt net clicked now w)) = Some rows)"
proof -
  have "\<exists>e sent. fetch_live rt net (requests w) = (sent, Inl e)"
    using assms fetch_live_cases [of rt net "requests w"]
      http_json_fail_usgs [of net e1 rt "requests w"]
      http_json_fail_weather [of net e2 "requests w @ [USGS_IV_URL]"]
    by auto
  then obtain e sent where f: "fetch_live rt net (requests w) = (sent, Inl e)"
    by blast
  have "store (fst (run_script rt net clicked now w)) = init_db (store w)"
    by (simp add: run_script_fetch_failed [OF f])
  moreover have "init_db (Some rows) = Some rows" for rows
    by (simp add: init_db_def)
  ultimately show ?thesis
    using f by (auto simp: run_script_fetch_failed [OF f])
qed

theorem fetch_failure_stores_nothing_witness:
  "http_json (gage_down (weather_body (JStr ''2024-05-01T19:15'') (JFloat 30) (JFloat 4))
               USGS_IV_URL) = Inl (HTTPError 503)
   \<and> snd (run_script example_runtime
            (gage_down (weather_body (JStr ''2024-05-01T19:15'') (JFloat 30) (JFloat 4)))
            True example_now \<lparr>requests = [], store = Some [row_a]\<rparr>)
       = FetchFailed (HTTPError 503)
   \<and> store (fst (run_script example_runtime
            (gage_down (weather_body (JStr ''2024-05-01T19:15'') (JFloat 30) (JFloat 4)))
            True example_now \<lparr>requests = [], store = Some [row_a]\<rparr>))
       = Some [row_a]
   \<and> http_json (weather_down (usgs_body []) OPEN_METEO_URL) = Inl RequestException
   \<and> snd (run_script example_runtime (weather_down (usgs_body []))
            True example_now \<lparr>requests = [], store = Some [row_a]\<rparr>)
       = FetchFailed RequestException
   \<and> store (fst (run_script example_runtime (weather_down (usgs_body []))
            True example_now \<lparr>requests = [], store = Some [row_a]\<rparr>))
       = Some [row_a]"
proof -
  let ?m = "weather_body (JStr ''2024-05-01T19:15'') (JFloat 30) (JFloat 4)"
  let ?w = "\<lparr>requests = [], store = Some [row_a]\<rparr>"
  have g: "http_json (gage_down ?m USGS_IV_URL) = Inl (HTTPError 503)"
    by (simp add: gage_down_def urls_differ http_json_def raise_for_status_def)
  have m: "http_json (weather_down (usgs_body []) OPEN_METEO_URL) = Inl RequestException"
    using urls_differ by (simp add: weather_down_def http_json_def)
  have fg: "snd (fetch_live example_runtime (gage_down ?m) (requests ?w)) = Inl (HTTPError 503)"
    by (simp add: fetch_live_usgs_fails [OF gage_down_fails])
  have fm: "snd (fetch_live example_runtime (weather_down (usgs_body [])) (requests ?w))
      = Inl RequestException"
    by (simp add: fetch_live_weather_fails [OF _ weather_down_fails] weather_down_gage)
  have "snd (run_script example_runtime (gage_down ?m) True example_now ?w)
          = FetchFailed (HTTPError 503)
      \<and> store (fst (run_script example_runtime (gage_down ?m) True example_now ?w))
          = Some [row_a]"
    using fetch_failure_stores_nothing [where net = "gage_down ?m" and ?e1.0 = "HTTPError 503"
        and rt = example_runtime and clicked = True and now = example_now and w = ?w, OF disjI1, OF g]
      fg
    by auto
  moreover have "snd (run_script example_runtime (weather_down (usgs_body [])) True example_now ?w)
          = FetchFailed RequestException
      \<and> store (fst (run_script example_runtime (weather_down (usgs_body [])) True example_now ?w))
          = Some [row_a]"
    using fetch_failure_stores_nothing [where net = "weather_down (usgs_body [])"
        and ?e2.0 = RequestException and rt = example_runtime and clicked = True
        and now = example_now and w = ?w, OF disjI2, OF m]
      fm
    by auto
  ultimately show ?thesis
    using g m by blast
qed

text \<open>
  Claim C10. In a run in which \<open>fetch_usgs\<close> raises, the only request issued is the one
  to the hydrology service: none goes to the weather service. When \<open>fetch_usgs\<close>
  returns, the weather request follows the gage request.
\<close>

theorem weather_request_only_after_gage_success:
  "(snd (fetch_usgs rt net (requests w)) = Inl e \<longrightarrow>
      requests (fst (run_script rt net clicked now w)) = requests w @ [USGS_IV_URL]
      \<and> OPEN_METEO_URL \<notin> set [USGS_IV_URL])
   \<and> (snd (fetch_usgs rt net (requests w)) = Inr u \<longrightarrow>
      requests (fst (run_script rt net clicked now w))
        = requests w @ [USGS_IV_URL, OPEN_METEO_URL])"
  using fetch_live_cases [of rt net "requests w"] urls_differ
  by (auto simp: run_script_requests)

theorem weather_request_only_after_gage_success_witness:
  "snd (fetch_usgs example_runtime
          (gage_down (weather_body (JStr ''2024-05-01T19:15'') (JFloat 30) (JFloat 4))) [])
     = Inl (HTTPError 503)
   \<and> requests (fst (run_script example_runtime
          (gage_down (weather_body (JStr ''2024-05-01T19:15'') (JFloat 30) (JFloat 4)))
          False example_now \<lparr>requests = [], store = None\<rparr>)) = [USGS_IV_URL]
   \<and> snd (fetch_usgs example_runtime
          (serve (usgs_body [])
             (weather_body (JStr ''2024-05-01T19:15'') (JFloat 30) (JFloat 4))) [])
     = Inr (JNull, None, None)
   \<and> requests (fst (run_script example_runtime
          (serve (usgs_body [])
             (weather_body (JStr ''2024-05-01T19:15'') (JFloat 30) (JFloat 4)))
          False example_now \<lparr>requests = [], store = None\<rparr>)) = [USGS_IV_URL, OPEN_METEO_URL]"
proof -
  let ?m = "weather_body (JStr ''2024-05-01T19:15'') (JFloat 30) (JFloat 4)"
  let ?w = "\<lparr>requests = [], store = None\<rparr>"
  have f: "snd (fetch_usgs example_runtime (gage_down ?m) (requests ?w)) = Inl (HTTPError 503)"
    by (rule gage_down_fails)
  have s: "snd (fetch_usgs example_runtime (serve (usgs_body []) ?m) (requests ?w))
      = Inr (JNull, None, None)"
    by (simp add: fetch_usgs_serve)
  have "requests (fst (run_script example_runtime (gage_down ?m) False example_now ?w))
      = requests ?w @ [USGS_IV_URL]"
    using weather_request_only_after_gage_success [where net = "gage_down ?m"
        and rt = example_runtime and w = ?w and e = "HTTPError 503" and clicked = False
        and now = example_now] f
    by blast
  moreover have "requests (fst (run_script example_runtime (serve (usgs_body []) ?m)
        False example_now ?w)) = requests ?w @ [USGS_IV_URL, OPEN_METEO_URL]"
    using weather_request_only_after_gage_success [where net = "serve (usgs_body []) ?m"
        and rt = example_runtime and w = ?w and u = "(JNull, None, None)" and clicked = False
        and now = example_now] s
    by blast
  ultimately show ?thesis
    using f s by simp
qed

end
